theory Spec2Isabelle
  imports Complex_Main "HOL-Library.AList"
begin

section \<open>Python values\<close>

text \<open>
  The hook \<^verbatim>\<open>hooks/tk-multi-publish2/create_version.py\<close> works on untyped Python
  values: the item's property bag, the \<^verbatim>\<open>assetInfo\<close> dictionary handed over by Flame,
  Shotgun entity dictionaries and Backburner job ids. They are modelled by one datatype.
  A dictionary is an association list with string keys, read with \<open>map_of\<close> and written
  with \<open>AList.update\<close> (an existing key keeps its place, a new key goes to the end, as in
  Python). A float is modelled by the real number it denotes; infinities and NaN are not
  represented. Operations that round or overflow on machine floats are not computed in
  the model but taken from the interpreter (see \<open>builtins\<close> below). Where Python 2 and
  Python 3 raise different exceptions for a value of the wrong type, the model follows
  Python 3.
\<close>

datatype pyval =
    PNone
  | PBool bool
  | PInt int
  | PFloat real
  | PStr string
  | PList "pyval list"
  | PDict "(string \<times> pyval) list"

type_synonym pydict = "(string \<times> pyval) list"

datatype error =
    TypeError
  | ValueError
  | OverflowError
  | AttributeError
  | ExternalError string

text \<open>
  Conversions of strings to numbers are Python built-ins whose grammar is not part of the
  hook; they are parameters of the model, together with \<^verbatim>\<open>str()\<close> of a value that is
  not a string. \<open>None\<close> stands for the \<^verbatim>\<open>ValueError\<close> of the built-in. So are the
  two operations on floats that round: \<^verbatim>\<open>float()\<close> of an integer, which gives the
  nearest float and raises an \<^verbatim>\<open>OverflowError\<close> (here \<open>None\<close>) beyond the range
  of floats, and the subtraction of two floats.
\<close>

record builtins =
  float_of_str :: "string \<Rightarrow> real option"
  float_of_int :: "int \<Rightarrow> real option"
  float_sub :: "real \<Rightarrow> real \<Rightarrow> real"
  int_of_str :: "string \<Rightarrow> int option"
  str_of :: "pyval \<Rightarrow> string"

text \<open>\<^verbatim>\<open>d.get(key, default)\<close> and \<^verbatim>\<open>d[key] = value\<close> and \<^verbatim>\<open>key in d\<close>.\<close>

definition dict_get :: "pydict \<Rightarrow> string \<Rightarrow> pyval \<Rightarrow> pyval" where
  "dict_get d k dflt = (case map_of d k of None \<Rightarrow> dflt | Some v \<Rightarrow> v)"

definition dict_set :: "pydict \<Rightarrow> string \<Rightarrow> pyval \<Rightarrow> pydict" where
  "dict_set d k v = AList.update k v d"

definition dict_has :: "pydict \<Rightarrow> string \<Rightarrow> bool" where
  "dict_has d k = (map_of d k \<noteq> None)"

text \<open>The truth value Python gives a value in \<^verbatim>\<open>if v:\<close>.\<close>

fun truthy :: "pyval \<Rightarrow> bool" where
  "truthy PNone = False"
| "truthy (PBool b) = b"
| "truthy (PInt i) = (i \<noteq> 0)"
| "truthy (PFloat r) = (r \<noteq> 0)"
| "truthy (PStr s) = (s \<noteq> [])"
| "truthy (PList xs) = (xs \<noteq> [])"
| "truthy (PDict d) = (d \<noteq> [])"

text \<open>\<^verbatim>\<open>float(v)\<close>: a \<^verbatim>\<open>TypeError\<close> for \<^verbatim>\<open>None\<close>, a list or a dict, a
  \<^verbatim>\<open>ValueError\<close> for a string that is not a number, an \<^verbatim>\<open>OverflowError\<close> for
  an integer beyond the range of floats.\<close>

fun py_float :: "'a builtins_scheme \<Rightarrow> pyval \<Rightarrow> error + real" where
  "py_float bi PNone = Inl TypeError"
| "py_float bi (PBool b) = Inr (if b then 1 else 0)"
| "py_float bi (PInt i) =
     (case float_of_int bi i of None \<Rightarrow> Inl OverflowError | Some r \<Rightarrow> Inr r)"
| "py_float bi (PFloat r) = Inr r"
| "py_float bi (PStr s) =
     (case float_of_str bi s of None \<Rightarrow> Inl ValueError | Some r \<Rightarrow> Inr r)"
| "py_float bi (PList xs) = Inl TypeError"
| "py_float bi (PDict d) = Inl TypeError"

text \<open>\<^verbatim>\<open>int(v)\<close>: a float is truncated towards zero.\<close>

fun py_int :: "'a builtins_scheme \<Rightarrow> pyval \<Rightarrow> error + int" where
  "py_int bi PNone = Inl TypeError"
| "py_int bi (PBool b) = Inr (if b then 1 else 0)"
| "py_int bi (PInt i) = Inr i"
| "py_int bi (PFloat r) = Inr (if 0 \<le> r then \<lfloor>r\<rfloor> else \<lceil>r\<rceil>)"
| "py_int bi (PStr s) =
     (case int_of_str bi s of None \<Rightarrow> Inl ValueError | Some i \<Rightarrow> Inr i)"
| "py_int bi (PList xs) = Inl TypeError"
| "py_int bi (PDict d) = Inl TypeError"

text \<open>\<^verbatim>\<open>v - 1\<close>: exact on integers and booleans, the float subtraction of the
  interpreter on a float, a \<^verbatim>\<open>TypeError\<close> otherwise.\<close>

fun py_sub1 :: "'a builtins_scheme \<Rightarrow> pyval \<Rightarrow> error + pyval" where
  "py_sub1 bi (PBool b) = Inr (PInt ((if b then 1 else 0) - 1))"
| "py_sub1 bi (PInt i) = Inr (PInt (i - 1))"
| "py_sub1 bi (PFloat r) = Inr (PFloat (float_sub bi r 1))"
| "py_sub1 bi v = Inl TypeError"

text \<open>\<^verbatim>\<open>"%s" % v\<close>.\<close>

fun py_str :: "'a builtins_scheme \<Rightarrow> pyval \<Rightarrow> string" where
  "py_str bi (PStr s) = s"
| "py_str bi v = str_of bi v"

section \<open>The frame range token\<close>

text \<open>
  \<^verbatim>\<open>re.search(r"(\[[0-9]+-[0-9]+\])\.", file_path)\<close> followed by
  \<^verbatim>\<open>re_match.group(1)[1:-1]\<close>. \<open>match_here\<close> tries the pattern at the start of
  the string and returns the group without its brackets; a run of digits is always taken
  whole, because the character after it has to be \<open>-\<close> or \<open>]\<close>. \<open>re_search\<close>
  tries every start position from the left.
\<close>

definition is_digit :: "char \<Rightarrow> bool" where
  "is_digit c = (c \<in> set ''0123456789'')"

definition match_here :: "string \<Rightarrow> string option" where
  "match_here s =
     (case s of
        [] \<Rightarrow> None
      | c # r \<Rightarrow>
          if c \<noteq> CHR ''['' then None
          else let d1 = takeWhile is_digit r; r1 = dropWhile is_digit r in
            if d1 = [] then None
            else (case r1 of
                [] \<Rightarrow> None
              | m # r2 \<Rightarrow>
                  if m \<noteq> CHR ''-'' then None
                  else let d2 = takeWhile is_digit r2; r3 = dropWhile is_digit r2 in
                    if d2 = [] then None
                    else (case r3 of
                        b # p # _ \<Rightarrow>
                          if b = CHR '']'' \<and> p = CHR ''.'' then Some (d1 @ CHR ''-'' # d2)
                          else None
                      | _ \<Rightarrow> None)))"

fun re_search :: "string \<Rightarrow> string option" where
  "re_search [] = None"
| "re_search (c # cs) =
     (case match_here (c # cs) of Some g \<Rightarrow> Some g | None \<Rightarrow> re_search cs)"

text \<open>\<^verbatim>\<open>re.search\<close> on a value that is not a string raises a \<^verbatim>\<open>TypeError\<close>.\<close>

fun py_re_search :: "pyval \<Rightarrow> error + string option" where
  "py_re_search (PStr s) = Inr (re_search s)"
| "py_re_search _ = Inl TypeError"

section \<open>The item and the Version metadata\<close>

text \<open>The attributes of the publish item that the hook reads:
  \<^verbatim>\<open>item.properties\<close>, \<^verbatim>\<open>item.name\<close>, \<^verbatim>\<open>item.description\<close> and
  \<^verbatim>\<open>item.context.project\<close>, \<^verbatim>\<open>.entity\<close>, \<^verbatim>\<open>.task\<close>.\<close>

record item =
  properties :: pydict
  name :: pyval
  description :: pyval
  context_project :: pyval
  context_entity :: pyval
  context_task :: pyval

text \<open>
  \<^verbatim>\<open>asset_info = item.properties.get("assetInfo", {})\<close>. The next statement calls
  \<^verbatim>\<open>asset_info.get\<close>, which only a dictionary has.
\<close>

definition asset_info_of :: "pydict \<Rightarrow> error + pydict" where
  "asset_info_of props =
     (case dict_get props ''assetInfo'' (PDict []) of
        PDict d \<Rightarrow> Inr d
      | _ \<Rightarrow> Inl AttributeError)"

text \<open>Lines 161 to 163 of \<^verbatim>\<open>publish\<close>: the frame rate.\<close>

definition set_frame_rate :: "'a builtins_scheme \<Rightarrow> pydict \<Rightarrow> pydict \<Rightarrow> error + pydict" where
  "set_frame_rate bi asset_info ver_data =
     (let frame_rate = dict_get asset_info ''fps'' PNone in
      if truthy frame_rate then
        (case py_float bi frame_rate of
           Inl e \<Rightarrow> Inl e
         | Inr f \<Rightarrow> Inr (dict_set ver_data ''sg_uploaded_movie_frame_rate'' (PFloat f)))
      else Inr ver_data)"

text \<open>Lines 165 to 168: the aspect ratio. The test is on \<^verbatim>\<open>asset_info\<close>.\<close>

definition set_aspect_ratio :: "'a builtins_scheme \<Rightarrow> pydict \<Rightarrow> pydict \<Rightarrow> error + pydict" where
  "set_aspect_ratio bi asset_info ver_data =
     (let aspect_ratio = dict_get asset_info ''aspectRatio'' PNone in
      if asset_info \<noteq> [] then
        (case py_float bi aspect_ratio of
           Inl e \<Rightarrow> Inl e
         | Inr f \<Rightarrow>
             Inr (dict_set (dict_set ver_data ''sg_frames_aspect_ratio'' (PFloat f))
                    ''sg_movie_aspect_ratio'' (PFloat f)))
      else Inr ver_data)"

text \<open>Lines 175 to 177: the frame range of a file sequence.\<close>

definition set_frame_range :: "pyval \<Rightarrow> pydict \<Rightarrow> error + pydict" where
  "set_frame_range file_path ver_data =
     (case py_re_search file_path of
        Inl e \<Rightarrow> Inl e
      | Inr None \<Rightarrow> Inr ver_data
      | Inr (Some g) \<Rightarrow> Inr (dict_set ver_data ''frame_range'' (PStr g)))"

text \<open>Lines 179 to 182: first frame, last frame and frame count. \<^verbatim>\<open>int\<close> is applied
  to the last frame first.\<close>

definition set_frames :: "'a builtins_scheme \<Rightarrow> pydict \<Rightarrow> pydict \<Rightarrow> error + pydict" where
  "set_frames bi asset_info ver_data =
     (if dict_has asset_info ''sourceIn'' \<and> dict_has asset_info ''sourceOut'' then
        (let first_frame = dict_get asset_info ''sourceIn'' PNone in
         case py_sub1 bi (dict_get asset_info ''sourceOut'' PNone) of
           Inl e \<Rightarrow> Inl e
         | Inr last_frame \<Rightarrow>
             (let vd = dict_set (dict_set ver_data ''sg_first_frame'' first_frame)
                         ''sg_last_frame'' last_frame in
              case py_int bi last_frame of
                Inl e \<Rightarrow> Inl e
              | Inr l \<Rightarrow>
                  (case py_int bi first_frame of
                     Inl e \<Rightarrow> Inl e
                   | Inr f \<Rightarrow> Inr (dict_set vd ''frame_count'' (PInt (l - f + 1))))))
      else Inr ver_data)"

text \<open>
  The Metadata Builder: lines 145 to 182 of \<^verbatim>\<open>publish\<close>, everything up to the call
  of \<^verbatim>\<open>self.sg.create\<close>. It returns the \<^verbatim>\<open>ver_data\<close> dictionary, or the exception
  that the first failing statement raises.
\<close>

definition initial_ver_data :: "item \<Rightarrow> pydict" where
  "initial_ver_data it =
     dict_set
       [(''project'', context_project it),
        (''code'', name it),
        (''description'', description it),
        (''entity'', context_entity it),
        (''sg_task'', context_task it),
        (''sg_path_to_frames'', dict_get (properties it) ''path'' PNone)]
       ''sg_department'' (PStr ''Flame'')"

definition file_path_of :: "pydict \<Rightarrow> pyval" where
  "file_path_of props = dict_get props ''file_path'' (dict_get props ''path'' PNone)"

definition build_ver_data :: "'a builtins_scheme \<Rightarrow> item \<Rightarrow> error + pydict" where
  "build_ver_data bi it =
     (case asset_info_of (properties it) of
        Inl e \<Rightarrow> Inl e
      | Inr asset_info \<Rightarrow>
     (case set_frame_rate bi asset_info (initial_ver_data it) of
        Inl e \<Rightarrow> Inl e
      | Inr vd1 \<Rightarrow>
     (case set_aspect_ratio bi asset_info vd1 of
        Inl e \<Rightarrow> Inl e
      | Inr vd2 \<Rightarrow>
     (case set_frame_range (file_path_of (properties it)) vd2 of
        Inl e \<Rightarrow> Inl e
      | Inr vd3 \<Rightarrow> set_frames bi asset_info vd3))))"

section \<open>Paths\<close>

text \<open>
  The functions of Python's \<^verbatim>\<open>posixpath\<close> that the hook calls (Flame runs on Linux and
  macOS), and \<^verbatim>\<open>str.split(".")[0]\<close>. \<^verbatim>\<open>os.path.split\<close> cuts after the last slash
  and strips the trailing slashes of the head unless the head consists of slashes only.
\<close>

definition not_sep :: "char \<Rightarrow> bool" where
  "not_sep c = (c \<noteq> CHR ''/'')"

definition not_dot :: "char \<Rightarrow> bool" where
  "not_dot c = (c \<noteq> CHR ''.'')"

definition rstrip_sep :: "string \<Rightarrow> string" where
  "rstrip_sep s = rev (dropWhile (\<lambda>c. c = CHR ''/'') (rev s))"

definition posix_split :: "string \<Rightarrow> string \<times> string" where
  "posix_split p =
     (let head = rev (dropWhile not_sep (rev p));
          tail = rev (takeWhile not_sep (rev p))
      in (if head \<noteq> [] \<and> head \<noteq> replicate (length head) (CHR ''/'')
          then rstrip_sep head else head, tail))"

definition posix_dirname :: "string \<Rightarrow> string" where
  "posix_dirname p = fst (posix_split p)"

definition posix_join :: "string \<Rightarrow> string \<Rightarrow> string" where
  "posix_join a b =
     (if b \<noteq> [] \<and> hd b = CHR ''/'' then b
      else if a = [] \<or> last a = CHR ''/'' then a @ b
      else a @ CHR ''/'' # b)"

text \<open>
  \<^verbatim>\<open>os.path.splitext\<close>: the extension starts at the last dot of the last path
  component, unless only dots come before it in that component.
\<close>

definition posix_splitext :: "string \<Rightarrow> string \<times> string" where
  "posix_splitext p =
     (let tail = rev (takeWhile not_sep (rev p)) in
      if CHR ''.'' \<in> set tail then
        (let ext = CHR ''.'' # rev (takeWhile not_dot (rev tail));
             stem = rev (tl (dropWhile not_dot (rev tail)))
         in if stem = replicate (length stem) (CHR ''.'') then (p, [])
            else (take (length p - length ext) p, ext))
      else (p, []))"

definition split_dot_first :: "string \<Rightarrow> string" where
  "split_dot_first s = takeWhile not_dot s"

text \<open>Line 201: \<^verbatim>\<open>os.path.split(path)[1].split(".")[0] + ".mov"\<close>, and line 202:
  \<^verbatim>\<open>os.path.join(os.path.dirname(path), quicktime_name)\<close>.\<close>

definition quicktime_name :: "string \<Rightarrow> string" where
  "quicktime_name path = split_dot_first (snd (posix_split path)) @ ''.mov''"

definition quicktime_path :: "string \<Rightarrow> string" where
  "quicktime_path path = posix_join (posix_dirname path) (quicktime_name path)"

section \<open>The external services\<close>

text \<open>
  The arguments of \<^verbatim>\<open>self.engine.transcoder.transcode\<close> and of
  \<^verbatim>\<open>self.engine.create_local_backburner_job\<close>, as the hook passes them by keyword.
\<close>

record transcode_args =
  tc_src_path :: pyval
  tc_dst_path :: pyval
  tc_extension :: string
  tc_display_name :: pyval
  tc_job_context :: string
  tc_preset_path :: pyval
  tc_asset_info :: pyval
  tc_dependencies :: pyval
  tc_poster_frame :: pyval

record job_args =
  bj_job_name :: pyval
  bj_description :: string
  bj_dependencies :: pyval
  bj_instance :: string
  bj_method_name :: string
  bj_args :: pydict

text \<open>
  Every call of an external service is recorded, in order, with what it returned or raised.
\<close>

datatype event =
    SgCreate string pydict "error + pyval"
  | Transcode transcode_args "error + (pyval \<times> pyval \<times> pyval)"
  | CreateJob job_args "error + pyval"

text \<open>
  Modelled from the spec: the engine, its transcoder and the Shotgun client are not part of
  the hook's file. The database client has one call \<^verbatim>\<open>create("Version", fields)\<close> that
  returns a record reference; the job queue's \<^verbatim>\<open>create_local_backburner_job\<close> returns
  a job id; the transcode service submits the transcode job and returns the destination
  path it used, the id of that job and a list of temporary files. What each call returns
  may depend on the calls made before it. \<^verbatim>\<open>sanitize_backburner_job_name\<close> and
  \<^verbatim>\<open>local_movies_preset_path\<close> are read from the engine.
\<close>

record env = builtins +
  sg_create :: "event list \<Rightarrow> string \<Rightarrow> pydict \<Rightarrow> error + pyval"
  transcode :: "event list \<Rightarrow> transcode_args \<Rightarrow> error + (pyval \<times> pyval \<times> pyval)"
  create_local_backburner_job :: "event list \<Rightarrow> job_args \<Rightarrow> error + pyval"
  sanitize_backburner_job_name :: "pyval \<Rightarrow> string \<Rightarrow> error + pyval"
  local_movies_preset_path :: pyval

text \<open>
  Modelled from the spec: the transcode service is not part of the hook's file, and the
  specification describes its call as the job request that transcodes the media (job 1 of
  the chain). The job submissions in a list of calls are therefore the transcode request
  and the Backburner jobs the hook creates itself. For each, the dependencies it declares
  and the id the queue gave it.
\<close>

fun is_job :: "event \<Rightarrow> bool" where
  "is_job (SgCreate ty vd r) = False"
| "is_job (Transcode a r) = True"
| "is_job (CreateJob a r) = True"

fun is_create :: "event \<Rightarrow> bool" where
  "is_create (SgCreate ty vd r) = True"
| "is_create (Transcode a r) = False"
| "is_create (CreateJob a r) = False"

definition job_submissions :: "event list \<Rightarrow> event list" where
  "job_submissions tr = filter is_job tr"

definition record_creations :: "event list \<Rightarrow> event list" where
  "record_creations tr = filter is_create tr"

fun job_deps :: "event \<Rightarrow> pyval" where
  "job_deps (SgCreate ty vd r) = PNone"
| "job_deps (Transcode a r) = tc_dependencies a"
| "job_deps (CreateJob a r) = bj_dependencies a"

fun job_id :: "event \<Rightarrow> pyval option" where
  "job_id (SgCreate ty vd r) = None"
| "job_id (Transcode a r) = (case r of Inl e \<Rightarrow> None | Inr (dst, jid, files) \<Rightarrow> Some jid)"
| "job_id (CreateJob a r) = (case r of Inl e \<Rightarrow> None | Inr jid \<Rightarrow> Some jid)"

section \<open>The hook\<close>

text \<open>
  \<^verbatim>\<open>generate_quicktime\<close> (lines 283 to 336). \<^verbatim>\<open>os.path.splitext\<close> needs a string
  (Python 3 raises a \<^verbatim>\<open>TypeError\<close> otherwise). The result is the descriptor and the
  extended list of calls; an exception leaves the calls made so far.
\<close>

definition generate_quicktime ::
  "env \<Rightarrow> event list \<Rightarrow> pyval \<Rightarrow> pyval \<Rightarrow> pyval \<Rightarrow> pyval \<Rightarrow> pyval \<Rightarrow> pyval
     \<Rightarrow> (error + pyval) \<times> event list" where
  "generate_quicktime en tr src_path dst_path display_name target_entities asset_info
       dependencies =
     (case dst_path of
        PStr dst \<Rightarrow>
          (let targs = \<lparr>tc_src_path = src_path,
                 tc_dst_path = dst_path,
                 tc_extension = snd (posix_splitext dst),
                 tc_display_name = display_name,
                 tc_job_context = ''Create Shotgun Local Movie'',
                 tc_preset_path = local_movies_preset_path en,
                 tc_asset_info = asset_info,
                 tc_dependencies = dependencies,
                 tc_poster_frame = PNone\<rparr>;
               r1 = transcode en tr targs;
               tr1 = tr @ [Transcode targs r1]
           in case r1 of
                Inl e \<Rightarrow> (Inl e, tr1)
              | Inr (dst_path', job_id', files_to_delete) \<Rightarrow>
                  (let jargs = \<lparr>bj_job_name =
                           PStr (py_str en display_name @ '' - Updating Shotgun Path to movie''),
                         bj_description =
                           ''Uploading Shotgun Path to movie to '' @ py_str en dst_path',
                         bj_dependencies = job_id',
                         bj_instance = ''backburner_hooks'',
                         bj_method_name = ''update_path_to_movie'',
                         bj_args = [(''targets'', target_entities),
                                    (''path'', dst_path'),
                                    (''files_to_delete'', files_to_delete)]\<rparr>;
                       r2 = create_local_backburner_job en tr1 jargs;
                       tr2 = tr1 @ [CreateJob jargs r2]
                   in case r2 of
                        Inl e \<Rightarrow> (Inl e, tr2)
                      | Inr unused \<Rightarrow>
                          (Inr (PDict [(''display_name'', display_name),
                                       (''dependencies'', job_id'),
                                       (''target_entities'', target_entities),
                                       (''path'', dst_path'),
                                       (''files_to_delete'', files_to_delete)]), tr2)))
      | _ \<Rightarrow> (Inl TypeError, tr))"

text \<open>
  \<^verbatim>\<open>_upload_quicktime_job\<close> (lines 220 to 257). \<^verbatim>\<open>quicktime_job.get\<close> needs a
  dictionary.
\<close>

definition upload_quicktime_job ::
  "env \<Rightarrow> event list \<Rightarrow> pyval \<Rightarrow> (error + pyval) \<times> event list" where
  "upload_quicktime_job en tr quicktime_job =
     (case quicktime_job of
        PDict qj \<Rightarrow>
          (let field_name = ''sg_uploaded_movie'';
               job_context = ''Move and Upload Flame Quicktime''
           in case sanitize_backburner_job_name en (dict_get qj ''display_name'' PNone)
                     ('' - '' @ job_context) of
                Inl e \<Rightarrow> (Inl e, tr)
              | Inr job_name \<Rightarrow>
                  (let job_description =
                         job_context @ '' for '' @ py_str en (dict_get qj ''display_name'' PNone)
                           @ [CHR 0x0A] @ '' '' @ py_str en (dict_get qj ''path'' PNone);
                       jargs = \<lparr>bj_job_name = job_name,
                         bj_description = job_description,
                         bj_dependencies = dict_get qj ''dependencies'' PNone,
                         bj_instance = ''backburner_hooks'',
                         bj_method_name = ''copy_from_temp_and_upload_to_shotgun'',
                         bj_args = [(''targets'', dict_get qj ''target_entities'' PNone),
                                    (''path'', dict_get qj ''path'' PNone),
                                    (''field_name'', PStr field_name),
                                    (''display_name'', dict_get qj ''display_name'' PNone),
                                    (''files_to_delete'', dict_get qj ''files_to_delete'' PNone)]\<rparr>;
                       r = create_local_backburner_job en tr jargs
                   in (r, tr @ [CreateJob jargs r])))
      | _ \<Rightarrow> (Inl AttributeError, tr))"

text \<open>\<^verbatim>\<open>finalize\<close> (lines 262 to 278). Without a truthy descriptor the method falls off
  its end and returns \<^verbatim>\<open>None\<close>.\<close>

definition finalize :: "env \<Rightarrow> event list \<Rightarrow> item \<Rightarrow> (error + pyval) \<times> event list" where
  "finalize en tr it =
     (let quicktime_job = dict_get (properties it) ''quicktime_job'' PNone in
      if truthy quicktime_job then upload_quicktime_job en tr quicktime_job
      else (Inr PNone, tr))"

text \<open>
  \<^verbatim>\<open>publish\<close> (lines 136 to 215). The result is the exception raised, if any, the
  item with its property bag as the method left it, and the extended list of calls.
  \<^verbatim>\<open>os.path.split\<close> needs a string.
\<close>

definition publish :: "env \<Rightarrow> event list \<Rightarrow> item \<Rightarrow> (error + unit) \<times> item \<times> event list" where
  "publish en tr it =
     (let path = dict_get (properties it) ''path'' PNone in
      case build_ver_data en it of
        Inl e \<Rightarrow> (Inl e, it, tr)
      | Inr ver_data \<Rightarrow>
          (let asset_info = dict_get (properties it) ''assetInfo'' (PDict []);
               file_path = file_path_of (properties it);
               r = sg_create en tr ''Version'' ver_data;
               tr1 = tr @ [SgCreate ''Version'' ver_data r]
           in case r of
                Inl e \<Rightarrow> (Inl e, it, tr1)
              | Inr version \<Rightarrow>
                  (let it1 = it\<lparr>properties := dict_set (properties it) ''Version'' version\<rparr>;
                       dependencies = dict_get (properties it1) ''backgroundJobId'' PNone
                   in case path of
                        PStr p \<Rightarrow>
                          (let qt_name = quicktime_name p;
                               qt_path = quicktime_path p;
                               (r2, tr2) = generate_quicktime en tr1 file_path (PStr qt_path)
                                  (PStr qt_name) (PList [version]) asset_info dependencies
                           in case r2 of
                                Inl e \<Rightarrow> (Inl e, it1, tr2)
                              | Inr quicktime_job \<Rightarrow>
                                  (Inr (),
                                   it1\<lparr>properties :=
                                     dict_set (dict_set (dict_set (properties it1)
                                       ''quicktime_name'' (PStr qt_name))
                                       ''quicktime_path'' (PStr qt_path))
                                       ''quicktime_job'' quicktime_job\<rparr>,
                                   tr2))
                      | _ \<Rightarrow> (Inl TypeError, it1, tr1))))"

text \<open>The publisher runs \<^verbatim>\<open>publish\<close> and, when it did not raise, \<^verbatim>\<open>finalize\<close> on
  the same item.\<close>

definition publish_finalize :: "env \<Rightarrow> event list \<Rightarrow> item \<Rightarrow> (error + pyval) \<times> event list" where
  "publish_finalize en tr it =
     (case publish en tr it of
        (Inl e, it', tr') \<Rightarrow> (Inl e, tr')
      | (Inr u, it', tr') \<Rightarrow> finalize en tr' it')"

text \<open>
  The deliverable name as the specification words it: the basename of the path with its
  extension stripped (\<^verbatim>\<open>os.path.splitext\<close>, as line 305 uses it) and
  \<^verbatim>\<open>.mov\<close> appended. It is compared with \<open>quicktime_name\<close> below.
\<close>

definition spec_quicktime_name :: "string \<Rightarrow> string" where
  "spec_quicktime_name path = fst (posix_splitext (snd (posix_split path))) @ ''.mov''"

text \<open>
  The token as the specification words it: at position \<open>n\<close> of \<open>s\<close> starts a token
  \<^verbatim>\<open>[<int>-<int>]\<close> followed by a dot, and \<open>g\<close> is the text between its brackets.
  It is compared with \<open>re_search\<close> below.
\<close>

definition spec_token_at :: "string \<Rightarrow> nat \<Rightarrow> string \<Rightarrow> bool" where
  "spec_token_at s n g =
     (\<exists>d1 d2 post. d1 \<noteq> [] \<and> d2 \<noteq> [] \<and> list_all is_digit d1 \<and> list_all is_digit d2
        \<and> n \<le> length s
        \<and> drop n s = ''['' @ d1 @ ''-'' @ d2 @ ''].'' @ post
        \<and> g = d1 @ ''-'' @ d2)"

text \<open>The transcode requests in a list of calls, in order.\<close>

fun transcode_requests :: "event list \<Rightarrow> transcode_args list" where
  "transcode_requests [] = []"
| "transcode_requests (SgCreate ty vd r # tr) = transcode_requests tr"
| "transcode_requests (Transcode a r # tr) = a # transcode_requests tr"
| "transcode_requests (CreateJob a r # tr) = transcode_requests tr"

section \<open>A concrete environment\<close>

text \<open>
  An environment and items on which the theorems below are exercised: the database
  returns a Version entity, the transcoder keeps the requested destination, and the job
  queue numbers the jobs in the order of their submission. Its interpreter parses no
  string as a number (the only string converted below is \<^verbatim>\<open>abc\<close>) and computes on
  floats exactly (no float is subtracted from and no integer is converted below).
\<close>

definition studio_env :: env where
  "studio_env =
     \<lparr>float_of_str = (\<lambda>s. None),
      float_of_int = (\<lambda>i. Some (of_int i)),
      float_sub = (\<lambda>a b. a - b),
      int_of_str = (\<lambda>s. None),
      str_of = (\<lambda>v. ''<object>''),
      sg_create = (\<lambda>tr ty vd. Inr (PDict [(''type'', PStr ty), (''id'', PInt 1)])),
      transcode = (\<lambda>tr a. Inr (tc_dst_path a,
         PInt (int (length (job_submissions tr)) + 1), PList [PStr ''/tmp/shot010.tmp''])),
      create_local_backburner_job =
        (\<lambda>tr a. Inr (PInt (int (length (job_submissions tr)) + 1))),
      sanitize_backburner_job_name =
        (\<lambda>n suffix. case n of PStr s \<Rightarrow> Inr (PStr (s @ suffix)) | _ \<Rightarrow> Inl TypeError),
      local_movies_preset_path = PStr ''/presets/movie.xml''\<rparr>"

definition shot_item :: "pydict \<Rightarrow> item" where
  "shot_item props =
     \<lparr>properties = props,
      name = PStr ''shot010'',
      description = PStr ''comp'',
      context_project = PDict [(''type'', PStr ''Project''), (''id'', PInt 7)],
      context_entity = PDict [(''type'', PStr ''Shot''), (''id'', PInt 10)],
      context_task = PNone\<rparr>"

definition sequence_props :: "pydict \<Rightarrow> pydict" where
  "sequence_props asset_info =
     [(''path'', PStr ''/proj/shot010.%04d.exr''),
      (''file_path'', PStr ''/proj/shot010.[1001-1050].exr''),
      (''assetInfo'', PDict asset_info)]"

section \<open>Dictionaries and the steps of the Metadata Builder\<close>

lemmas builder_defs = build_ver_data_def asset_info_of_def set_frame_rate_def
  set_aspect_ratio_def set_frame_range_def set_frames_def initial_ver_data_def
  file_path_of_def dict_get_def dict_set_def dict_has_def shot_item_def sequence_props_def

lemmas env_defs = studio_env_def job_submissions_def

lemmas path_defs = quicktime_name_def quicktime_path_def posix_split_def posix_dirname_def
  posix_join_def posix_splitext_def split_dot_first_def rstrip_sep_def not_sep_def not_dot_def

lemmas hook_defs = publish_finalize_def publish_def finalize_def upload_quicktime_job_def
  generate_quicktime_def

lemma map_of_dict_set:
  "map_of (dict_set d k v) k' = (if k' = k then Some v else map_of d k')"
  by (simp add: dict_set_def update_conv')

lemma build_ver_data_steps:
  assumes "build_ver_data bi it = Inr vd"
  obtains ai vd1 vd2 vd3 where
    "asset_info_of (properties it) = Inr ai"
    "set_frame_rate bi ai (initial_ver_data it) = Inr vd1"
    "set_aspect_ratio bi ai vd1 = Inr vd2"
    "set_frame_range (file_path_of (properties it)) vd2 = Inr vd3"
    "set_frames bi ai vd3 = Inr vd"
  using assms by (auto simp: build_ver_data_def split: sum.splits)

lemma initial_ver_data_absent:
  "k \<notin> {''project'', ''code'', ''description'', ''entity'', ''sg_task'',
        ''sg_path_to_frames'', ''sg_department''} \<Longrightarrow> map_of (initial_ver_data it) k = None"
  by (simp add: initial_ver_data_def map_of_dict_set)

lemma set_frame_rate_other:
  "set_frame_rate bi ai vd = Inr vd' \<Longrightarrow> k \<noteq> ''sg_uploaded_movie_frame_rate''
     \<Longrightarrow> map_of vd' k = map_of vd k"
  by (auto simp: set_frame_rate_def Let_def map_of_dict_set split: if_splits sum.splits)

lemma set_frame_rate_truthy:
  "set_frame_rate bi ai vd = Inr vd' \<Longrightarrow> truthy (dict_get ai ''fps'' PNone)
     \<Longrightarrow> \<exists>f. py_float bi (dict_get ai ''fps'' PNone) = Inr f
           \<and> map_of vd' ''sg_uploaded_movie_frame_rate'' = Some (PFloat f)"
  by (auto simp: set_frame_rate_def Let_def map_of_dict_set split: if_splits sum.splits)

lemma set_frame_rate_falsy:
  "set_frame_rate bi ai vd = Inr vd' \<Longrightarrow> \<not> truthy (dict_get ai ''fps'' PNone) \<Longrightarrow> vd' = vd"
  by (auto simp: set_frame_rate_def Let_def split: if_splits sum.splits)

lemma set_aspect_ratio_other:
  "set_aspect_ratio bi ai vd = Inr vd' \<Longrightarrow> k \<noteq> ''sg_frames_aspect_ratio''
     \<Longrightarrow> k \<noteq> ''sg_movie_aspect_ratio'' \<Longrightarrow> map_of vd' k = map_of vd k"
  by (auto simp: set_aspect_ratio_def Let_def map_of_dict_set split: if_splits sum.splits)


lemma set_aspect_ratio_empty:
  "set_aspect_ratio bi [] vd = Inr vd"
  by (simp add: set_aspect_ratio_def)

lemma set_frame_range_other:
  "set_frame_range fp vd = Inr vd' \<Longrightarrow> k \<noteq> ''frame_range'' \<Longrightarrow> map_of vd' k = map_of vd k"
  by (auto simp: set_frame_range_def map_of_dict_set split: sum.splits option.splits)

lemma set_frames_other:
  "set_frames bi ai vd = Inr vd' \<Longrightarrow> k \<noteq> ''sg_first_frame'' \<Longrightarrow> k \<noteq> ''sg_last_frame''
     \<Longrightarrow> k \<noteq> ''frame_count'' \<Longrightarrow> map_of vd' k = map_of vd k"
  by (auto simp: set_frames_def Let_def map_of_dict_set split: if_splits sum.splits)

lemma set_frames_both:
  "set_frames bi ai vd = Inr vd' \<Longrightarrow> map_of ai ''sourceIn'' = Some vi
     \<Longrightarrow> map_of ai ''sourceOut'' = Some vo
     \<Longrightarrow> \<exists>lf l f. py_sub1 bi vo = Inr lf \<and> py_int bi lf = Inr l \<and> py_int bi vi = Inr f
           \<and> map_of vd' ''sg_first_frame'' = Some vi
           \<and> map_of vd' ''sg_last_frame'' = Some lf
           \<and> map_of vd' ''frame_count'' = Some (PInt (l - f + 1))"
  by (auto simp: set_frames_def Let_def map_of_dict_set dict_has_def dict_get_def
      split: if_splits sum.splits)

lemma set_frames_not_both:
  "set_frames bi ai vd = Inr vd'
     \<Longrightarrow> map_of ai ''sourceIn'' = None \<or> map_of ai ''sourceOut'' = None \<Longrightarrow> vd' = vd"
  by (auto simp: set_frames_def Let_def dict_has_def split: if_splits sum.splits)

text \<open>
  The builder returns a Version whenever the file path is a string, \<^verbatim>\<open>assetInfo\<close> is
  absent or a dictionary, the conversions it attempts succeed, and \<^verbatim>\<open>sourceIn\<close> and
  \<^verbatim>\<open>sourceOut\<close>, when both are present, are integers.
\<close>

lemma build_ver_data_returns:
  assumes "file_path_of (properties it) = PStr s"
    and "asset_info_of (properties it) = Inr ai"
    and "truthy (dict_get ai ''fps'' PNone) \<Longrightarrow> \<exists>f. py_float bi (dict_get ai ''fps'' PNone) = Inr f"
    and "ai \<noteq> [] \<Longrightarrow> \<exists>f. py_float bi (dict_get ai ''aspectRatio'' PNone) = Inr f"
    and "dict_has ai ''sourceIn'' \<Longrightarrow> dict_has ai ''sourceOut''
       \<Longrightarrow> \<exists>a b. map_of ai ''sourceIn'' = Some (PInt a) \<and> map_of ai ''sourceOut'' = Some (PInt b)"
  shows "\<exists>vd. build_ver_data bi it = Inr vd"
proof -
  have "\<exists>vd1. set_frame_rate bi ai (initial_ver_data it) = Inr vd1"
  proof (cases "truthy (dict_get ai ''fps'' PNone)")
    case True
    with assms(3) show ?thesis by (auto simp: set_frame_rate_def Let_def)
  next
    case False
    then show ?thesis by (simp add: set_frame_rate_def Let_def)
  qed
  then obtain vd1 where 1: "set_frame_rate bi ai (initial_ver_data it) = Inr vd1" ..
  have "\<exists>vd2. set_aspect_ratio bi ai vd1 = Inr vd2"
  proof (cases "ai = []")
    case True
    then show ?thesis by (simp add: set_aspect_ratio_def)
  next
    case False
    with assms(4) show ?thesis by (auto simp: set_aspect_ratio_def Let_def)
  qed
  then obtain vd2 where 2: "set_aspect_ratio bi ai vd1 = Inr vd2" ..
  have "\<exists>vd3. set_frame_range (PStr s) vd2 = Inr vd3"
    by (simp add: set_frame_range_def split: option.splits)
  then obtain vd3 where 3: "set_frame_range (PStr s) vd2 = Inr vd3" ..
  have "\<exists>vd. set_frames bi ai vd3 = Inr vd"
  proof (cases "dict_has ai ''sourceIn'' \<and> dict_has ai ''sourceOut''")
    case True
    with assms(5) show ?thesis by (auto simp: set_frames_def Let_def dict_get_def)
  next
    case False
    then show ?thesis by (auto simp: set_frames_def)
  qed
  then obtain vd where 4: "set_frames bi ai vd3 = Inr vd" ..
  from assms(1,2) 1 2 3 4 show ?thesis
    by (simp add: build_ver_data_def)
qed

lemma re_search_sequence:
  "re_search ''/proj/shot010.[1001-1050].exr'' = Some ''1001-1050''"
  by (simp add: match_here_def is_digit_def)

section \<open>The frame range token and the specification's token\<close>

lemma not_digit_dash: "\<not> is_digit (CHR ''-'')"
  by (simp add: is_digit_def)

lemma not_digit_bracket: "\<not> is_digit (CHR '']'')"
  by (simp add: is_digit_def)

lemma takeWhile_digits:
  "list_all is_digit d \<Longrightarrow> \<not> is_digit c \<Longrightarrow> takeWhile is_digit (d @ c # r) = d"
  by (simp add: list_all_iff)

lemma dropWhile_digits:
  "list_all is_digit d \<Longrightarrow> \<not> is_digit c \<Longrightarrow> dropWhile is_digit (d @ c # r) = c # r"
  by (simp add: list_all_iff)

lemma match_here_token:
  assumes "d1 \<noteq> []" "d2 \<noteq> []" "list_all is_digit d1" "list_all is_digit d2"
  shows "match_here (CHR ''['' # d1 @ CHR ''-'' # d2 @ CHR '']'' # CHR ''.'' # post)
           = Some (d1 @ CHR ''-'' # d2)"
  using assms
  by (simp add: match_here_def takeWhile_digits dropWhile_digits not_digit_dash not_digit_bracket)

lemma match_here_SomeD:
  assumes "match_here s = Some g"
  shows "\<exists>d1 d2 post. d1 \<noteq> [] \<and> d2 \<noteq> [] \<and> list_all is_digit d1 \<and> list_all is_digit d2
           \<and> s = CHR ''['' # d1 @ CHR ''-'' # d2 @ CHR '']'' # CHR ''.'' # post
           \<and> g = d1 @ CHR ''-'' # d2"
proof -
  from assms obtain r where s: "s = CHR ''['' # r"
    by (auto simp: match_here_def split: list.splits if_splits)
  define d1 where "d1 = takeWhile is_digit r"
  define r1 where "r1 = dropWhile is_digit r"
  have r: "r = d1 @ r1" by (simp add: d1_def r1_def)
  from assms s have d1: "d1 \<noteq> []"
    by (auto simp: match_here_def d1_def Let_def split: if_splits)
  from assms s d1 obtain r2 where r1: "r1 = CHR ''-'' # r2"
    by (auto simp: match_here_def d1_def r1_def Let_def split: list.splits if_splits)
  define d2 where "d2 = takeWhile is_digit r2"
  define r3 where "r3 = dropWhile is_digit r2"
  have r2: "r2 = d2 @ r3" by (simp add: d2_def r3_def)
  from assms s d1 r1 have d2: "d2 \<noteq> []"
    by (auto simp: match_here_def d1_def r1_def d2_def Let_def split: if_splits)
  from assms s d1 r1 d2 obtain post where r3: "r3 = CHR '']'' # CHR ''.'' # post"
      and g: "g = d1 @ CHR ''-'' # d2"
    by (auto simp: match_here_def d1_def r1_def d2_def r3_def Let_def
        split: list.splits if_splits)
  have "list_all is_digit d1" "list_all is_digit d2"
    by (auto simp: d1_def d2_def list_all_iff dest: set_takeWhileD)
  with s r r1 r2 r3 g d1 d2 show ?thesis by auto
qed

lemma match_here_spec: "(match_here s = Some g) = spec_token_at s 0 g"
proof
  assume "match_here s = Some g"
  from match_here_SomeD [OF this] show "spec_token_at s 0 g"
    by (auto simp: spec_token_at_def)
next
  assume "spec_token_at s 0 g"
  then obtain d1 d2 post where "d1 \<noteq> []" "d2 \<noteq> []" "list_all is_digit d1" "list_all is_digit d2"
    "s = CHR ''['' # d1 @ CHR ''-'' # d2 @ CHR '']'' # CHR ''.'' # post" "g = d1 @ CHR ''-'' # d2"
    by (auto simp: spec_token_at_def)
  then show "match_here s = Some g" by (simp add: match_here_token)
qed

lemma spec_token_at_Nil: "\<not> spec_token_at [] n g"
  by (simp add: spec_token_at_def)

lemma spec_token_at_Suc: "spec_token_at (c # s) (Suc n) g = spec_token_at s n g"
  by (simp add: spec_token_at_def)

lemma re_search_None_iff: "(re_search s = None) = (\<forall>n g. \<not> spec_token_at s n g)"
proof (induction s)
  case Nil
  then show ?case by (simp add: spec_token_at_Nil)
next
  case (Cons c cs)
  have "(\<forall>n g. \<not> spec_token_at (c # cs) n g)
      = ((\<forall>g. \<not> spec_token_at (c # cs) 0 g) \<and> (\<forall>n g. \<not> spec_token_at cs n g))"
    (is "?L = ?R")
  proof
    assume ?L then show ?R using spec_token_at_Suc [of c cs] by blast
  next
    assume r: ?R
    show ?L
    proof (intro allI)
      fix n g show "\<not> spec_token_at (c # cs) n g"
        using r spec_token_at_Suc [of c cs] by (cases n) auto
    qed
  qed
  moreover have "(match_here (c # cs) = None) = (\<forall>g. \<not> spec_token_at (c # cs) 0 g)"
    using match_here_spec [of "c # cs"] by (cases "match_here (c # cs)") auto
  ultimately show ?case using Cons.IH by (auto split: option.splits)
qed

lemma re_search_Some_iff:
  "(re_search s = Some g)
     = (\<exists>n. spec_token_at s n g \<and> (\<forall>m g'. spec_token_at s m g' \<longrightarrow> n \<le> m))"
proof (induction s)
  case Nil
  then show ?case by (simp add: spec_token_at_Nil)
next
  case (Cons c cs)
  show ?case
  proof (cases "match_here (c # cs)")
    case (Some g0)
    then have t0: "spec_token_at (c # cs) 0 g0" by (simp add: match_here_spec)
    have "(\<exists>n. spec_token_at (c # cs) n g \<and> (\<forall>m g'. spec_token_at (c # cs) m g' \<longrightarrow> n \<le> m))
        = (g = g0)"
    proof
      assume "\<exists>n. spec_token_at (c # cs) n g \<and> (\<forall>m g'. spec_token_at (c # cs) m g' \<longrightarrow> n \<le> m)"
      then obtain n where n: "spec_token_at (c # cs) n g"
        "\<forall>m g'. spec_token_at (c # cs) m g' \<longrightarrow> n \<le> m" by blast
      from n(2) t0 have "n = 0" by auto
      with n(1) have "match_here (c # cs) = Some g" by (simp add: match_here_spec)
      with Some show "g = g0" by simp
    next
      assume "g = g0"
      with t0 show "\<exists>n. spec_token_at (c # cs) n g
          \<and> (\<forall>m g'. spec_token_at (c # cs) m g' \<longrightarrow> n \<le> m)"
        by (intro exI [of _ 0]) simp
    qed
    with Some show ?thesis by auto
  next
    case None
    then have no0: "\<not> spec_token_at (c # cs) 0 g'" for g'
      using match_here_spec [of "c # cs" g'] by simp
    have "(\<exists>n. spec_token_at (c # cs) n g \<and> (\<forall>m g'. spec_token_at (c # cs) m g' \<longrightarrow> n \<le> m))
        = (\<exists>n. spec_token_at cs n g \<and> (\<forall>m g'. spec_token_at cs m g' \<longrightarrow> n \<le> m))"
      (is "?L = ?R")
    proof
      assume ?L
      then obtain n where n: "spec_token_at (c # cs) n g"
        "\<forall>m g'. spec_token_at (c # cs) m g' \<longrightarrow> n \<le> m" by blast
      from n(1) no0 obtain k where k: "n = Suc k" by (cases n) auto
      with n(1) have "spec_token_at cs k g" by (simp add: spec_token_at_Suc)
      moreover have "k \<le> m" if "spec_token_at cs m g'" for m g'
      proof -
        from that have "spec_token_at (c # cs) (Suc m) g'" by (simp add: spec_token_at_Suc)
        with n(2) k show ?thesis by auto
      qed
      ultimately show ?R by blast
    next
      assume ?R
      then obtain k where k: "spec_token_at cs k g"
        "\<forall>m g'. spec_token_at cs m g' \<longrightarrow> k \<le> m" by blast
      from k(1) have "spec_token_at (c # cs) (Suc k) g" by (simp add: spec_token_at_Suc)
      moreover have "Suc k \<le> m" if "spec_token_at (c # cs) m g'" for m g'
      proof (cases m)
        case 0
        with that no0 show ?thesis by simp
      next
        case (Suc j)
        with that have "spec_token_at cs j g'" by (simp add: spec_token_at_Suc)
        with k(2) Suc show ?thesis by auto
      qed
      ultimately show ?L by blast
    qed
    with None Cons.IH show ?thesis by simp
  qed
qed

lemma re_search_example: "re_search ''shot010.[1001-1050].exr'' = Some ''1001-1050''"
  by (simp add: match_here_def is_digit_def)

lemma re_search_movie: "re_search ''shot010.mov'' = None"
  by (simp add: match_here_def is_digit_def)

lemma build_frame_range:
  assumes "file_path_of (properties it) = PStr s" and "build_ver_data bi it = Inr vd"
  shows "map_of vd ''frame_range'' = map_option PStr (re_search s)"
proof -
  from assms(2) obtain ai vd1 vd2 vd3 where
    s: "asset_info_of (properties it) = Inr ai"
      "set_frame_rate bi ai (initial_ver_data it) = Inr vd1"
      "set_aspect_ratio bi ai vd1 = Inr vd2"
      "set_frame_range (file_path_of (properties it)) vd2 = Inr vd3"
      "set_frames bi ai vd3 = Inr vd"
    by (rule build_ver_data_steps)
  let ?k = "''frame_range''"
  have "map_of vd2 ?k = None"
    using set_aspect_ratio_other [OF s(3), of ?k] set_frame_rate_other [OF s(2), of ?k]
      initial_ver_data_absent [of ?k it]
    by simp
  moreover from s(4) assms(1)
  have "map_of vd3 ?k = (case re_search s of None \<Rightarrow> map_of vd2 ?k | Some g \<Rightarrow> Some (PStr g))"
    by (auto simp: set_frame_range_def map_of_dict_set split: option.splits)
  moreover have "map_of vd ?k = map_of vd3 ?k"
    using set_frames_other [OF s(5), of ?k] by simp
  ultimately show ?thesis by (simp split: option.splits)
qed

section \<open>The Metadata Builder\<close>

text \<open>
  C2. The specification expects that \<^verbatim>\<open>assetInfo = {fps: 24.0}\<close> gives a Version
  with the frame rate 24.0 and no aspect-ratio field. The hook does not build a Version
  at all for it: the aspect-ratio step is entered because the dictionary is not empty,
  \<^verbatim>\<open>aspect_ratio\<close> is \<^verbatim>\<open>None\<close>, and \<^verbatim>\<open>float(None)\<close> raises a
  \<^verbatim>\<open>TypeError\<close>, whatever the string conversions of the interpreter are.
\<close>

theorem fps_only_raises:
  "build_ver_data bi (shot_item (sequence_props [(''fps'', PFloat 24.0)])) = Inl TypeError"
  by (simp add: builder_defs)



text \<open>
  C4. The frame-range step never raises on a string: it stores what \<open>re_search\<close> finds
  under \<^verbatim>\<open>frame_range\<close> and otherwise leaves the dictionary alone, and that is the
  value of the key in every Version the builder produces. \<open>re_search\<close> finds nothing
  exactly when the string has no token \<^verbatim>\<open>[<int>-<int>]\<close> followed by a dot, and
  otherwise returns the text between the brackets of the leftmost such token.
\<close>

theorem frame_range_token:
  "set_frame_range (PStr s) vd0
     = Inr (case re_search s of None \<Rightarrow> vd0 | Some g \<Rightarrow> dict_set vd0 ''frame_range'' (PStr g))
   \<and> (file_path_of (properties it) = PStr s \<and> build_ver_data bi it = Inr vd
        \<longrightarrow> map_of vd ''frame_range'' = map_option PStr (re_search s))
   \<and> ((re_search s = None) = (\<forall>n g. \<not> spec_token_at s n g))
   \<and> (\<forall>g. (re_search s = Some g)
        = (\<exists>n. spec_token_at s n g \<and> (\<forall>m g'. spec_token_at s m g' \<longrightarrow> n \<le> m)))"
proof -
  have a: "set_frame_range (PStr s) vd0
     = Inr (case re_search s of None \<Rightarrow> vd0 | Some g \<Rightarrow> dict_set vd0 ''frame_range'' (PStr g))"
    by (simp add: set_frame_range_def split: option.splits)
  have b: "file_path_of (properties it) = PStr s \<and> build_ver_data bi it = Inr vd
        \<longrightarrow> map_of vd ''frame_range'' = map_option PStr (re_search s)"
    using build_frame_range by blast
  have c: "(re_search s = None) = (\<forall>n g. \<not> spec_token_at s n g)"
    by (rule re_search_None_iff)
  have d: "\<forall>g. (re_search s = Some g)
        = (\<exists>n. spec_token_at s n g \<and> (\<forall>m g'. spec_token_at s m g' \<longrightarrow> n \<le> m))"
    using re_search_Some_iff by blast
  show ?thesis by (rule conjI [OF a conjI [OF b conjI [OF c d]]])
qed

text \<open>The specification's example \<^verbatim>\<open>shot010.[1001-1050].exr\<close>, and a path without a token.\<close>

theorem frame_range_token_witness:
  "(\<exists>vd. build_ver_data studio_env (shot_item [(''file_path'', PStr ''shot010.[1001-1050].exr'')])
          = Inr vd
        \<and> map_of vd ''frame_range'' = Some (PStr ''1001-1050''))
   \<and> spec_token_at ''shot010.[1001-1050].exr'' 8 ''1001-1050''
   \<and> (\<exists>vd. build_ver_data studio_env (shot_item [(''path'', PStr ''shot010.mov'')]) = Inr vd
        \<and> map_of vd ''frame_range'' = None)"
proof -
  let ?a = "shot_item [(''file_path'', PStr ''shot010.[1001-1050].exr'')]"
  let ?b = "shot_item [(''path'', PStr ''shot010.mov'')]"
  have fa: "file_path_of (properties ?a) = PStr ''shot010.[1001-1050].exr''"
    by (simp add: builder_defs)
  have fb: "file_path_of (properties ?b) = PStr ''shot010.mov''"
    by (simp add: builder_defs)
  obtain va where a: "build_ver_data studio_env ?a = Inr va"
    by (simp add: builder_defs re_search_example del: re_search.simps)
  obtain vb where b: "build_ver_data studio_env ?b = Inr vb"
    by (simp add: builder_defs re_search_movie del: re_search.simps)
  note ta = frame_range_token [where s = "''shot010.[1001-1050].exr''" and it = ?a
      and bi = studio_env and vd = va]
  note tb = frame_range_token [where s = "''shot010.mov''" and it = ?b
      and bi = studio_env and vd = vb]
  from ta fa a have 1: "map_of va ''frame_range'' = Some (PStr ''1001-1050'')"
    by (simp add: re_search_example del: re_search.simps)
  from tb fb b have 2: "map_of vb ''frame_range'' = None"
    by (simp add: re_search_movie del: re_search.simps)
  have 3: "spec_token_at ''shot010.[1001-1050].exr'' 8 ''1001-1050''"
    unfolding spec_token_at_def
    by (rule exI [of _ "''1001''"], rule exI [of _ "''1050''"], rule exI [of _ "''exr''"])
      (simp add: is_digit_def)
  from a b 1 2 3 show ?thesis by blast
qed

text \<open>
  C5. The specification expects that \<^verbatim>\<open>sourceIn = 1001\<close> and
  \<^verbatim>\<open>sourceOut = 1051\<close> give the first frame 1001, the last frame 1050 and the frame
  count 50. Lines 179 to 182 compute exactly these three fields, but the builder does not
  reach them for \<^verbatim>\<open>assetInfo = {sourceIn: 1001, sourceOut: 1051}\<close>: the dictionary
  is not empty, so the aspect-ratio step before them calls \<^verbatim>\<open>float(None)\<close> and the
  builder raises a \<^verbatim>\<open>TypeError\<close> instead of returning a Version. This is the
  guard of line 166 again, which tests the dictionary where it should test the value.
\<close>

theorem frames_without_aspect_ratio:
  "set_frames bi [(''sourceIn'', PInt 1001), (''sourceOut'', PInt 1051)] vd0
     = Inr (dict_set (dict_set (dict_set vd0 ''sg_first_frame'' (PInt 1001))
              ''sg_last_frame'' (PInt 1050)) ''frame_count'' (PInt 50))
   \<and> build_ver_data bi (shot_item (sequence_props
        [(''sourceIn'', PInt 1001), (''sourceOut'', PInt 1051)])) = Inl TypeError"
  by (simp add: builder_defs)

text \<open>
  Whenever the builder does return a Version for an \<^verbatim>\<open>assetInfo\<close> with both
  \<^verbatim>\<open>sourceIn\<close> and \<^verbatim>\<open>sourceOut\<close>, the first frame is \<^verbatim>\<open>sourceIn\<close>, the
  last frame is \<^verbatim>\<open>sourceOut - 1\<close> and the frame count is
  \<^verbatim>\<open>int(last) - int(first) + 1\<close>; for integers \<open>a\<close> and \<open>b\<close> these are \<open>a\<close>,
  \<open>b - 1\<close> and \<open>(b - 1) - a + 1\<close>. When one of the two keys is missing, none of the
  three fields is set.
\<close>

lemma frame_fields:
  assumes "asset_info_of (properties it) = Inr ai" and "build_ver_data bi it = Inr vd"
  shows "(\<forall>vi vo. map_of ai ''sourceIn'' = Some vi \<and> map_of ai ''sourceOut'' = Some vo \<longrightarrow>
           (\<exists>lf l f. py_sub1 bi vo = Inr lf \<and> py_int bi lf = Inr l \<and> py_int bi vi = Inr f
              \<and> map_of vd ''sg_first_frame'' = Some vi
              \<and> map_of vd ''sg_last_frame'' = Some lf
              \<and> map_of vd ''frame_count'' = Some (PInt (l - f + 1))))
       \<and> (\<forall>a b. map_of ai ''sourceIn'' = Some (PInt a) \<and> map_of ai ''sourceOut'' = Some (PInt b) \<longrightarrow>
           map_of vd ''sg_first_frame'' = Some (PInt a)
              \<and> map_of vd ''sg_last_frame'' = Some (PInt (b - 1))
              \<and> map_of vd ''frame_count'' = Some (PInt ((b - 1) - a + 1)))
       \<and> (map_of ai ''sourceIn'' = None \<or> map_of ai ''sourceOut'' = None \<longrightarrow>
           map_of vd ''sg_first_frame'' = None
              \<and> map_of vd ''sg_last_frame'' = None
              \<and> map_of vd ''frame_count'' = None)"
proof -
  from assms(2) obtain ai' vd1 vd2 vd3 where
    s: "asset_info_of (properties it) = Inr ai'"
      "set_frame_rate bi ai' (initial_ver_data it) = Inr vd1"
      "set_aspect_ratio bi ai' vd1 = Inr vd2"
      "set_frame_range (file_path_of (properties it)) vd2 = Inr vd3"
      "set_frames bi ai' vd3 = Inr vd"
    by (rule build_ver_data_steps)
  from s(1) assms(1) have eq: "ai' = ai" by simp
  have before: "map_of vd3 k = None"
    if "k = ''sg_first_frame'' \<or> k = ''sg_last_frame'' \<or> k = ''frame_count''" for k
    using that set_frame_range_other [OF s(4), of k] set_aspect_ratio_other [OF s(3), of k]
      set_frame_rate_other [OF s(2), of k] initial_ver_data_absent [of k it]
    by auto
  have general: "\<exists>lf l f. py_sub1 bi vo = Inr lf \<and> py_int bi lf = Inr l \<and> py_int bi vi = Inr f
        \<and> map_of vd ''sg_first_frame'' = Some vi
        \<and> map_of vd ''sg_last_frame'' = Some lf
        \<and> map_of vd ''frame_count'' = Some (PInt (l - f + 1))"
    if "map_of ai ''sourceIn'' = Some vi" "map_of ai ''sourceOut'' = Some vo" for vi vo
    using set_frames_both [OF s(5)] that eq by simp
  have ints: "map_of vd ''sg_first_frame'' = Some (PInt a)
        \<and> map_of vd ''sg_last_frame'' = Some (PInt (b - 1))
        \<and> map_of vd ''frame_count'' = Some (PInt ((b - 1) - a + 1))"
    if "map_of ai ''sourceIn'' = Some (PInt a)" "map_of ai ''sourceOut'' = Some (PInt b)" for a b
    using general [OF that] by auto
  have neither: "map_of vd ''sg_first_frame'' = None
        \<and> map_of vd ''sg_last_frame'' = None \<and> map_of vd ''frame_count'' = None"
    if "map_of ai ''sourceIn'' = None \<or> map_of ai ''sourceOut'' = None"
  proof -
    from set_frames_not_both [OF s(5)] that eq have "vd = vd3" by simp
    with before show ?thesis by simp
  qed
  from general ints neither show ?thesis by blast
qed

text \<open>With an aspect ratio beside them, 1001 and 1051 give 1001, 1050 and 50, and
  \<^verbatim>\<open>sourceIn\<close> alone gives no field.\<close>

lemma frame_fields_example:
  "(\<exists>vd. build_ver_data studio_env (shot_item (sequence_props
            [(''aspectRatio'', PFloat 1.78), (''sourceIn'', PInt 1001), (''sourceOut'', PInt 1051)]))
          = Inr vd
        \<and> map_of vd ''sg_first_frame'' = Some (PInt 1001)
        \<and> map_of vd ''sg_last_frame'' = Some (PInt 1050)
        \<and> map_of vd ''frame_count'' = Some (PInt 50))
   \<and> (\<exists>vd. build_ver_data studio_env (shot_item (sequence_props
            [(''aspectRatio'', PFloat 1.78), (''sourceIn'', PInt 1001)]))
          = Inr vd
        \<and> map_of vd ''sg_first_frame'' = None
        \<and> map_of vd ''sg_last_frame'' = None
        \<and> map_of vd ''frame_count'' = None)"
proof -
  let ?ai = "[(''aspectRatio'', PFloat 1.78), (''sourceIn'', PInt 1001), (''sourceOut'', PInt 1051)]"
  let ?aj = "[(''aspectRatio'', PFloat 1.78), (''sourceIn'', PInt 1001)]"
  have a: "asset_info_of (properties (shot_item (sequence_props ?ai))) = Inr ?ai"
    by (simp add: builder_defs)
  obtain vd where b: "build_ver_data studio_env (shot_item (sequence_props ?ai)) = Inr vd"
    by (simp add: builder_defs re_search_sequence del: re_search.simps)
  have c: "asset_info_of (properties (shot_item (sequence_props ?aj))) = Inr ?aj"
    by (simp add: builder_defs)
  obtain vd' where d: "build_ver_data studio_env (shot_item (sequence_props ?aj)) = Inr vd'"
    by (simp add: builder_defs re_search_sequence del: re_search.simps)
  from frame_fields [OF a b] frame_fields [OF c d] b d show ?thesis
    by simp
qed

text \<open>
  C9. The specification expects the uploaded-movie frame rate to be set to
  \<^verbatim>\<open>float(fps)\<close> whenever \<^verbatim>\<open>fps\<close> is present and truthy. For
  \<^verbatim>\<open>assetInfo = {fps: 24.0}\<close> the frame-rate step (lines 161 to 163) does set the
  field to 24.0, but the aspect-ratio step that follows raises a \<^verbatim>\<open>TypeError\<close> on
  the same dictionary, so the builder returns no Version that could hold the field. This
  is the guard of line 166 again, which tests the dictionary where it should test the
  value.
\<close>

theorem frame_rate_without_aspect_ratio:
  "set_frame_rate bi [(''fps'', PFloat 24.0)] vd0
     = Inr (dict_set vd0 ''sg_uploaded_movie_frame_rate'' (PFloat 24.0))
   \<and> set_aspect_ratio bi [(''fps'', PFloat 24.0)] vd1 = Inl TypeError
   \<and> build_ver_data bi (shot_item
        [(''path'', PStr ''/proj/shot010.mov''), (''assetInfo'', PDict [(''fps'', PFloat 24.0)])])
       = Inl TypeError"
  by (simp add: builder_defs)

text \<open>
  Whenever the builder does return a Version, the uploaded-movie frame rate is present
  exactly when \<^verbatim>\<open>assetInfo\<close> has an \<^verbatim>\<open>fps\<close> key with a truthy value, and then
  it is \<^verbatim>\<open>float(fps)\<close>; a zero or otherwise falsy \<^verbatim>\<open>fps\<close> leaves the field out.
  For an item without \<^verbatim>\<open>assetInfo\<close> the frame rate, the two aspect ratios, the first
  and last frame and the frame count are all absent.
\<close>

lemma frame_rate_guard:
  assumes "asset_info_of (properties it) = Inr ai" and "build_ver_data bi it = Inr vd"
  shows "((\<exists>v. map_of ai ''fps'' = Some v \<and> truthy v)
            = (map_of vd ''sg_uploaded_movie_frame_rate'' \<noteq> None))
       \<and> (\<forall>v. map_of ai ''fps'' = Some v \<and> truthy v \<longrightarrow>
            (\<exists>f. py_float bi v = Inr f
               \<and> map_of vd ''sg_uploaded_movie_frame_rate'' = Some (PFloat f)))
       \<and> (map_of (properties it) ''assetInfo'' = None \<longrightarrow>
            map_of vd ''sg_uploaded_movie_frame_rate'' = None
              \<and> map_of vd ''sg_frames_aspect_ratio'' = None
              \<and> map_of vd ''sg_movie_aspect_ratio'' = None
              \<and> map_of vd ''sg_first_frame'' = None
              \<and> map_of vd ''sg_last_frame'' = None
              \<and> map_of vd ''frame_count'' = None)"
proof -
  from assms(2) obtain ai' vd1 vd2 vd3 where
    s: "asset_info_of (properties it) = Inr ai'"
      "set_frame_rate bi ai' (initial_ver_data it) = Inr vd1"
      "set_aspect_ratio bi ai' vd1 = Inr vd2"
      "set_frame_range (file_path_of (properties it)) vd2 = Inr vd3"
      "set_frames bi ai' vd3 = Inr vd"
    by (rule build_ver_data_steps)
  from s(1) assms(1) have eq: "ai' = ai" by simp
  let ?k = "''sg_uploaded_movie_frame_rate''"
  have later: "map_of vd ?k = map_of vd1 ?k"
    using set_frames_other [OF s(5), of ?k] set_frame_range_other [OF s(4), of ?k]
      set_aspect_ratio_other [OF s(3), of ?k]
    by simp
  have truthy_iff: "truthy (dict_get ai ''fps'' PNone) = (\<exists>v. map_of ai ''fps'' = Some v \<and> truthy v)"
    by (cases "map_of ai ''fps''") (simp_all add: dict_get_def)
  have present: "\<exists>f. py_float bi v = Inr f \<and> map_of vd ?k = Some (PFloat f)"
    if "map_of ai ''fps'' = Some v" "truthy v" for v
    using set_frame_rate_truthy [OF s(2)] that eq later by (simp add: dict_get_def)
  have absent: "map_of vd ?k = None" if "\<not> (\<exists>v. map_of ai ''fps'' = Some v \<and> truthy v)"
  proof -
    from that truthy_iff eq have "\<not> truthy (dict_get ai' ''fps'' PNone)" by simp
    from set_frame_rate_falsy [OF s(2) this] later initial_ver_data_absent [of ?k it]
    show ?thesis by simp
  qed
  have no_info: "map_of vd ?k = None
        \<and> map_of vd ''sg_frames_aspect_ratio'' = None
        \<and> map_of vd ''sg_movie_aspect_ratio'' = None
        \<and> map_of vd ''sg_first_frame'' = None
        \<and> map_of vd ''sg_last_frame'' = None
        \<and> map_of vd ''frame_count'' = None"
    if "map_of (properties it) ''assetInfo'' = None"
  proof -
    from that assms(1) have e: "ai = []"
      by (simp add: asset_info_of_def dict_get_def)
    with absent have r: "map_of vd ?k = None" by simp
    from e eq s(2) have v1: "vd1 = initial_ver_data it"
      by (simp add: set_frame_rate_def dict_get_def)
    from e eq s(3) have v2: "vd2 = vd1" by (simp add: set_aspect_ratio_empty)
    from e eq s(5) have v3: "vd = vd3" by (simp add: set_frames_def dict_has_def)
    have "map_of vd k = None" if "k \<noteq> ''frame_range''"
      "k \<notin> {''project'', ''code'', ''description'', ''entity'', ''sg_task'',
        ''sg_path_to_frames'', ''sg_department''}" for k
      using that v1 v2 v3 set_frame_range_other [OF s(4), of k] initial_ver_data_absent [of k it]
      by simp
    then show ?thesis by simp
  qed
  have c1: "(\<exists>v. map_of ai ''fps'' = Some v \<and> truthy v) = (map_of vd ?k \<noteq> None)"
    using present absent by fastforce
  have c2: "\<forall>v. map_of ai ''fps'' = Some v \<and> truthy v \<longrightarrow>
      (\<exists>f. py_float bi v = Inr f \<and> map_of vd ?k = Some (PFloat f))"
    using present by blast
  from no_info have c3: "map_of (properties it) ''assetInfo'' = None \<longrightarrow>
      map_of vd ?k = None
        \<and> map_of vd ''sg_frames_aspect_ratio'' = None
        \<and> map_of vd ''sg_movie_aspect_ratio'' = None
        \<and> map_of vd ''sg_first_frame'' = None
        \<and> map_of vd ''sg_last_frame'' = None
        \<and> map_of vd ''frame_count'' = None"
    by (rule impI)
  show ?thesis by (rule conjI [OF c1 conjI [OF c2 c3]])
qed

text \<open>A frame rate of 24.0 and a frame rate of zero, each with an aspect ratio beside it,
  and an item without \<^verbatim>\<open>assetInfo\<close>.\<close>

lemma frame_rate_guard_example:
  "(\<exists>vd. build_ver_data studio_env (shot_item (sequence_props
            [(''fps'', PFloat 24.0), (''aspectRatio'', PFloat 1.78)])) = Inr vd
        \<and> map_of vd ''sg_uploaded_movie_frame_rate'' = Some (PFloat 24.0))
   \<and> (\<exists>vd. build_ver_data studio_env (shot_item (sequence_props
            [(''fps'', PFloat 0), (''aspectRatio'', PFloat 1.78)])) = Inr vd
        \<and> map_of vd ''sg_uploaded_movie_frame_rate'' = None)
   \<and> (\<exists>vd. build_ver_data studio_env (shot_item [(''path'', PStr ''shot010.mov'')]) = Inr vd
        \<and> map_of vd ''sg_uploaded_movie_frame_rate'' = None
        \<and> map_of vd ''sg_frames_aspect_ratio'' = None
        \<and> map_of vd ''sg_movie_aspect_ratio'' = None
        \<and> map_of vd ''sg_first_frame'' = None
        \<and> map_of vd ''sg_last_frame'' = None
        \<and> map_of vd ''frame_count'' = None)"
proof -
  let ?ai = "[(''fps'', PFloat 24.0), (''aspectRatio'', PFloat 1.78)]"
  let ?aj = "[(''fps'', PFloat 0), (''aspectRatio'', PFloat 1.78)]"
  let ?c = "shot_item [(''path'', PStr ''shot010.mov'')]"
  have a1: "asset_info_of (properties (shot_item (sequence_props ?ai))) = Inr ?ai"
    by (simp add: builder_defs)
  obtain va where a2: "build_ver_data studio_env (shot_item (sequence_props ?ai)) = Inr va"
    by (simp add: builder_defs re_search_sequence del: re_search.simps)
  have b1: "asset_info_of (properties (shot_item (sequence_props ?aj))) = Inr ?aj"
    by (simp add: builder_defs)
  obtain vb where b2: "build_ver_data studio_env (shot_item (sequence_props ?aj)) = Inr vb"
    by (simp add: builder_defs re_search_sequence del: re_search.simps)
  have c1: "asset_info_of (properties ?c) = Inr []"
    by (simp add: builder_defs)
  obtain vc where c2: "build_ver_data studio_env ?c = Inr vc"
    by (simp add: builder_defs re_search_movie del: re_search.simps)
  have c3: "map_of (properties ?c) ''assetInfo'' = None"
    by (simp add: shot_item_def)
  from frame_rate_guard [OF a1 a2] have 1: "map_of va ''sg_uploaded_movie_frame_rate'' = Some (PFloat 24.0)"
    by auto
  from frame_rate_guard [OF b1 b2] have 2: "map_of vb ''sg_uploaded_movie_frame_rate'' = None"
    by auto
  from frame_rate_guard [OF c1 c2] c3 have 3: "map_of vc ''sg_uploaded_movie_frame_rate'' = None
        \<and> map_of vc ''sg_frames_aspect_ratio'' = None
        \<and> map_of vc ''sg_movie_aspect_ratio'' = None
        \<and> map_of vc ''sg_first_frame'' = None
        \<and> map_of vc ''sg_last_frame'' = None
        \<and> map_of vc ''frame_count'' = None"
    by blast
  from a2 b2 c2 1 2 3 show ?thesis by blast
qed

section \<open>The job chain\<close>

lemma transcode_requests_append:
  "transcode_requests (xs @ ys) = transcode_requests xs @ transcode_requests ys"
  by (induction xs rule: transcode_requests.induct) simp_all

text \<open>
  C6. On an item whose property bag has no \<^verbatim>\<open>quicktime_job\<close>, \<^verbatim>\<open>finalize\<close>
  returns \<^verbatim>\<open>None\<close> and makes no call; this is the case in particular after a
  \<^verbatim>\<open>publish\<close> that raised on an item that had none before.
\<close>

theorem finalize_without_descriptor:
  "(map_of (properties it) ''quicktime_job'' = None \<longrightarrow> finalize en tr it = (Inr PNone, tr))
   \<and> (map_of (properties it) ''quicktime_job'' = None \<and> publish en tr0 it = (Inl e, it', tr')
        \<longrightarrow> finalize en tr' it' = (Inr PNone, tr'))"
proof -
  have a: "finalize en t i = (Inr PNone, t)" if "map_of (properties i) ''quicktime_job'' = None"
    for t i
    using that by (simp add: finalize_def dict_get_def)
  have b: "map_of (properties it') ''quicktime_job'' = map_of (properties it) ''quicktime_job''"
    if "publish en tr0 it = (Inl e, it', tr')"
    using that
    by (auto simp: publish_def Let_def map_of_dict_set
        split: sum.splits pyval.splits prod.splits)
  from a b show ?thesis by simp
qed

theorem finalize_without_descriptor_witness:
  "map_of (properties (shot_item (sequence_props []))) ''quicktime_job'' = None
   \<and> finalize studio_env [] (shot_item (sequence_props [])) = (Inr PNone, [])
   \<and> publish studio_env [] (shot_item []) = (Inl TypeError, shot_item [], [])
   \<and> finalize studio_env [] (shot_item []) = (Inr PNone, [])"
proof -
  have a: "map_of (properties (shot_item (sequence_props []))) ''quicktime_job'' = None"
    by (simp add: shot_item_def sequence_props_def)
  have b: "map_of (properties (shot_item [])) ''quicktime_job'' = None"
    by (simp add: shot_item_def)
  have c: "publish studio_env [] (shot_item []) = (Inl TypeError, shot_item [], [])"
    by (simp add: publish_def builder_defs)
  from finalize_without_descriptor [of "shot_item (sequence_props [])" studio_env "[]"]
    finalize_without_descriptor [of "shot_item []" studio_env "[]" "[]" TypeError "shot_item []" "[]"]
    a b c
  show ?thesis by simp
qed

text \<open>
  C7. A descriptor returned by \<^verbatim>\<open>generate_quicktime\<close> holds the job id, the
  destination path and the temporary files that the transcode call returned, and the
  target entities it was given; the job created in between depends on the same job id.
\<close>

theorem generate_quicktime_descriptor:
  assumes "generate_quicktime en tr src dst dn te ai deps = (Inr qj, tr')"
  shows "\<exists>targs dst' jid files jargs j2.
           transcode en tr targs = Inr (dst', jid, files)
         \<and> tc_src_path targs = src \<and> tc_dst_path targs = dst \<and> tc_dependencies targs = deps
         \<and> tr' = tr @ [Transcode targs (Inr (dst', jid, files)), CreateJob jargs (Inr j2)]
         \<and> bj_dependencies jargs = jid
         \<and> qj = PDict [(''display_name'', dn), (''dependencies'', jid),
                        (''target_entities'', te), (''path'', dst'),
                        (''files_to_delete'', files)]"
  using assms
  by (auto simp: generate_quicktime_def Let_def split: pyval.splits sum.splits prod.splits)

text \<open>A run of \<^verbatim>\<open>generate_quicktime\<close> in the concrete environment.\<close>

theorem generate_quicktime_descriptor_witness:
  "fst (generate_quicktime studio_env [] (PStr ''/proj/shot010.[1001-1050].exr'')
          (PStr ''/proj/shot010.mov'') (PStr ''shot010.mov'') (PList [PInt 5]) (PDict []) PNone)
     = Inr (PDict [(''display_name'', PStr ''shot010.mov''), (''dependencies'', PInt 1),
                   (''target_entities'', PList [PInt 5]), (''path'', PStr ''/proj/shot010.mov''),
                   (''files_to_delete'', PList [PStr ''/tmp/shot010.tmp''])])"
proof -
  let ?g = "generate_quicktime studio_env [] (PStr ''/proj/shot010.[1001-1050].exr'')
          (PStr ''/proj/shot010.mov'') (PStr ''shot010.mov'') (PList [PInt 5]) (PDict []) PNone"
  obtain qj tr' where g: "?g = (Inr qj, tr')"
    by (simp add: generate_quicktime_def env_defs Let_def)
  from generate_quicktime_descriptor [OF g] obtain targs dst' jid files where
    t: "transcode studio_env [] targs = Inr (dst', jid, files)"
      "tc_dst_path targs = PStr ''/proj/shot010.mov''"
      "qj = PDict [(''display_name'', PStr ''shot010.mov''), (''dependencies'', jid),
                   (''target_entities'', PList [PInt 5]), (''path'', dst'),
                   (''files_to_delete'', files)]"
    by blast
  from t(1,2) have "dst' = PStr ''/proj/shot010.mov''" "jid = PInt 1"
    "files = PList [PStr ''/tmp/shot010.tmp'']"
    by (simp_all add: env_defs)
  with t(3) g show ?thesis by simp
qed

lemma generate_quicktime_result:
  assumes "generate_quicktime en tr src dst dn te ai deps = (Inr qj, tr')"
  shows "\<exists>targs dst' jid files jargs j2.
           transcode en tr targs = Inr (dst', jid, files)
         \<and> tr' = tr @ [Transcode targs (Inr (dst', jid, files)), CreateJob jargs (Inr j2)]
         \<and> bj_dependencies jargs = jid
         \<and> qj = PDict [(''display_name'', dn), (''dependencies'', jid),
                        (''target_entities'', te), (''path'', dst'),
                        (''files_to_delete'', files)]"
  using assms
  by (auto simp: generate_quicktime_def Let_def split: pyval.splits sum.splits prod.splits)

lemma publish_finalize_Inr:
  "publish en tr it = (Inr u, it', tr') \<Longrightarrow> publish_finalize en tr it = finalize en tr' it'"
  by (simp add: publish_finalize_def)

text \<open>
  C1. The specification expects a strictly linear chain in which job 3 depends on job 2.
  In the concrete environment the queue gives the three jobs the ids 1, 2 and 3; job 2
  declares the dependency 1, and so does job 3: the descriptor carries the id of the
  transcode job, and the id of job 2 is never kept.
\<close>

theorem job_chain_counterexample:
  "map job_id (job_submissions (snd (publish_finalize studio_env [] (shot_item (sequence_props [])))))
     = [Some (PInt 1), Some (PInt 2), Some (PInt 3)]
   \<and> map job_deps (job_submissions (snd (publish_finalize studio_env []
        (shot_item (sequence_props [])))))
     = [PNone, PInt 1, PInt 1]
   \<and> Some (job_deps (job_submissions (snd (publish_finalize studio_env []
        (shot_item (sequence_props [])))) ! 2))
     \<noteq> job_id (job_submissions (snd (publish_finalize studio_env []
        (shot_item (sequence_props [])))) ! 1)"
  by (simp add: hook_defs builder_defs env_defs path_defs Let_def re_search_sequence
      del: re_search.simps)

text \<open>
  C1, as the hook has it. When \<^verbatim>\<open>publish\<close> and then \<^verbatim>\<open>finalize\<close> both return
  on an item, they made exactly four calls, in this order: one record creation, the
  transcode request (job 1) and two Backburner jobs. Job 2 and job 3 both declare the id
  of job 1 as their dependency.
\<close>

theorem publish_finalize_jobs:
  assumes "publish en tr it = (Inr (), it', tr')" and "finalize en tr' it' = (Inr j3, tr'')"
  shows "\<exists>vd version targs dst j1 files a2 j2 a3.
           tr'' = tr @ [SgCreate ''Version'' vd (Inr version),
                        Transcode targs (Inr (dst, j1, files)),
                        CreateJob a2 (Inr j2), CreateJob a3 (Inr j3)]
         \<and> bj_dependencies a2 = j1 \<and> bj_dependencies a3 = j1
         \<and> length (job_submissions tr'') = length (job_submissions tr) + 3
         \<and> length (record_creations tr'') = length (record_creations tr) + 1"
proof -
  from assms(1) obtain vd version p where
    v: "build_ver_data en it = Inr vd" "sg_create en tr ''Version'' vd = Inr version"
      "dict_get (properties it) ''path'' PNone = PStr p"
    by (auto simp: publish_def Let_def split: sum.splits pyval.splits prod.splits)
  define tr1 where "tr1 = tr @ [SgCreate ''Version'' vd (Inr version)]"
  define it1 where "it1 = it\<lparr>properties := dict_set (properties it) ''Version'' version\<rparr>"
  from assms(1) v obtain qj where
    g: "generate_quicktime en tr1 (file_path_of (properties it)) (PStr (quicktime_path p))
          (PStr (quicktime_name p)) (PList [version])
          (dict_get (properties it) ''assetInfo'' (PDict []))
          (dict_get (properties it1) ''backgroundJobId'' PNone) = (Inr qj, tr')"
    and i: "map_of (properties it') ''quicktime_job'' = Some qj"
    by (auto simp: publish_def Let_def tr1_def it1_def map_of_dict_set
        split: sum.splits prod.splits)
  from generate_quicktime_result [OF g] obtain targs dst j1 files a2 j2 where
    d: "tr' = tr1 @ [Transcode targs (Inr (dst, j1, files)), CreateJob a2 (Inr j2)]"
      "bj_dependencies a2 = j1"
      "qj = PDict [(''display_name'', PStr (quicktime_name p)), (''dependencies'', j1),
                   (''target_entities'', PList [version]), (''path'', dst),
                   (''files_to_delete'', files)]"
    by blast
  from assms(2) i d(3) obtain a3 where
    f: "tr'' = tr' @ [CreateJob a3 (Inr j3)]" "bj_dependencies a3 = j1"
    by (auto simp: finalize_def upload_quicktime_job_def dict_get_def Let_def
        split: sum.splits)
  from d(1) f(1) have t: "tr'' = tr @ [SgCreate ''Version'' vd (Inr version),
                        Transcode targs (Inr (dst, j1, files)),
                        CreateJob a2 (Inr j2), CreateJob a3 (Inr j3)]"
    by (simp add: tr1_def)
  then have "length (job_submissions tr'') = length (job_submissions tr) + 3"
    "length (record_creations tr'') = length (record_creations tr) + 1"
    by (simp_all add: job_submissions_def record_creations_def)
  with t d(2) f(2) show ?thesis by blast
qed

theorem publish_finalize_jobs_witness:
  "fst (publish_finalize studio_env [] (shot_item (sequence_props []))) = Inr (PInt 3)
   \<and> length (job_submissions (snd (publish_finalize studio_env []
        (shot_item (sequence_props []))))) = 3
   \<and> length (record_creations (snd (publish_finalize studio_env []
        (shot_item (sequence_props []))))) = 1"
proof -
  let ?p = "publish studio_env [] (shot_item (sequence_props []))"
  let ?f = "finalize studio_env (snd (snd ?p)) (fst (snd ?p))"
  have "fst ?p = Inr ()"
    by (simp add: hook_defs builder_defs env_defs path_defs Let_def re_search_sequence
        del: re_search.simps)
  then have p: "?p = (Inr (), fst (snd ?p), snd (snd ?p))"
    by (simp add: prod_eq_iff)
  have ff: "fst ?f = Inr (PInt 3)"
    by (simp add: hook_defs builder_defs env_defs path_defs Let_def re_search_sequence
        del: re_search.simps)
  from ff have f: "?f = (Inr (PInt 3), snd ?f)"
    by (simp add: prod_eq_iff)
  have pf: "publish_finalize studio_env [] (shot_item (sequence_props [])) = ?f"
    by (rule publish_finalize_Inr [OF p])
  from publish_finalize_jobs [OF p f] have
    "length (job_submissions (snd ?f)) = 3" "length (record_creations (snd ?f)) = 1"
    by (auto simp: job_submissions_def record_creations_def)
  with ff show ?thesis unfolding pf by simp
qed

section \<open>The quicktime deliverable\<close>

lemma takeWhile_all_then:
  "list_all P xs \<Longrightarrow> \<not> P c \<Longrightarrow> takeWhile P (xs @ c # r) = xs"
  by (simp add: list_all_iff)

lemma dropWhile_all_then:
  "list_all P xs \<Longrightarrow> \<not> P c \<Longrightarrow> dropWhile P (xs @ c # r) = c # r"
  by (simp add: list_all_iff)

lemma takeWhile_all: "list_all P xs \<Longrightarrow> takeWhile P xs = xs"
  by (simp add: list_all_iff)

lemma dropWhile_all: "list_all P xs \<Longrightarrow> dropWhile P xs = []"
  by (simp add: list_all_iff)

lemma sep_not_not_sep: "\<not> not_sep (CHR ''/'')"
  by (simp add: not_sep_def)

lemma list_all_rev_iff: "list_all P (rev xs) = list_all P xs"
  by (simp add: list_all_iff)

lemma tail_no_sep: "list_all not_sep (rev (takeWhile not_sep (rev p)))"
  by (auto simp: list_all_iff dest: set_takeWhileD)

lemma list_all_takeWhile: "list_all Q xs \<Longrightarrow> list_all Q (takeWhile P xs)"
  by (auto simp: list_all_iff dest: set_takeWhileD)

lemma quicktime_name_no_sep: "list_all not_sep (quicktime_name p)"
proof -
  have t: "snd (posix_split p) = rev (takeWhile not_sep (rev p))"
    by (simp add: posix_split_def Let_def)
  have "list_all not_sep (takeWhile not_dot (snd (posix_split p)))"
    unfolding t by (rule list_all_takeWhile [OF tail_no_sep])
  moreover have "list_all not_sep ''.mov''"
    by (simp add: not_sep_def)
  ultimately show ?thesis
    unfolding quicktime_name_def split_dot_first_def by simp
qed

lemma quicktime_name_nonempty: "quicktime_name p \<noteq> []"
  by (simp add: quicktime_name_def)

lemma dropWhile_is_sep_rev:
  "d \<noteq> [] \<Longrightarrow> last d \<noteq> CHR ''/'' \<Longrightarrow> dropWhile (\<lambda>c. c = CHR ''/'') (rev d) = rev d"
  by (cases d rule: rev_cases) simp_all

lemma posix_split_name:
  assumes "list_all not_sep n"
  shows "posix_split n = ([], n)"
proof -
  from assms have a: "list_all not_sep (rev n)" by (simp add: list_all_rev_iff)
  have t: "takeWhile not_sep (rev n) = rev n" by (rule takeWhile_all [OF a])
  have h: "dropWhile not_sep (rev n) = []" by (rule dropWhile_all [OF a])
  show ?thesis unfolding posix_split_def Let_def t h by simp
qed

lemma posix_split_slashes:
  assumes "list_all not_sep n" and "d = replicate (length d) (CHR ''/'')" and "d \<noteq> []"
  shows "posix_split (d @ n) = (d, n)"
proof -
  from assms(1) have a: "list_all not_sep (rev n)" by (simp add: list_all_rev_iff)
  from assms(3) obtain c r where r: "rev d = c # r" by (cases "rev d") auto
  then have "c \<in> set d" by (metis list.set_intros(1) set_rev)
  with assms(2) have c: "c = CHR ''/''"
    by (metis in_set_replicate)
  have t: "takeWhile not_sep (rev n @ rev d) = rev n"
    unfolding r c by (rule takeWhile_all_then [OF a sep_not_not_sep])
  have h: "dropWhile not_sep (rev n @ rev d) = rev d"
    unfolding r c by (rule dropWhile_all_then [OF a sep_not_not_sep])
  have e: "(d \<noteq> [] \<and> d \<noteq> replicate (length d) (CHR ''/'')) = False"
    using assms(2) by blast
  show ?thesis unfolding posix_split_def Let_def rev_append t h rev_rev_ident e by simp
qed

lemma posix_split_dir:
  assumes "list_all not_sep n" and "d \<noteq> []" and "last d \<noteq> CHR ''/''"
  shows "posix_split (d @ CHR ''/'' # n) = (d, n)"
proof -
  from assms(1) have a: "list_all not_sep (rev n)" by (simp add: list_all_rev_iff)
  have rv: "rev (d @ CHR ''/'' # n) = rev n @ CHR ''/'' # rev d" by simp
  have t: "takeWhile not_sep (rev n @ CHR ''/'' # rev d) = rev n"
    by (rule takeWhile_all_then [OF a sep_not_not_sep])
  have h: "dropWhile not_sep (rev n @ CHR ''/'' # rev d) = CHR ''/'' # rev d"
    by (rule dropWhile_all_then [OF a sep_not_not_sep])
  have hh: "rev (CHR ''/'' # rev d) = d @ ''/''" by simp
  have ne: "d @ ''/'' \<noteq> replicate (length (d @ ''/'')) (CHR ''/'')"
  proof
    assume "d @ ''/'' = replicate (length (d @ ''/'')) (CHR ''/'')"
    moreover have "last d \<in> set (d @ ''/'')" using assms(2) by simp
    ultimately have "last d = CHR ''/''" by (metis in_set_replicate)
    with assms(3) show False by simp
  qed
  have rs: "rstrip_sep (d @ ''/'') = d"
    using assms(2,3) by (simp add: rstrip_sep_def dropWhile_is_sep_rev)
  have e: "(d @ ''/'' \<noteq> [] \<and> d @ ''/'' \<noteq> replicate (length (d @ ''/'')) (CHR ''/'')) = True"
    using ne by simp
  show ?thesis unfolding posix_split_def Let_def rv t h hh e rs by simp
qed

lemma posix_dirname_shape:
  "posix_dirname p = [] \<or> posix_dirname p = replicate (length (posix_dirname p)) (CHR ''/'')
     \<or> last (posix_dirname p) \<noteq> CHR ''/''"
proof -
  define h where "h = rev (dropWhile not_sep (rev p))"
  have dn: "posix_dirname p
      = (if h \<noteq> [] \<and> h \<noteq> replicate (length h) (CHR ''/'') then rstrip_sep h else h)"
    unfolding posix_dirname_def posix_split_def Let_def h_def by simp
  show ?thesis
  proof (cases "h \<noteq> [] \<and> h \<noteq> replicate (length h) (CHR ''/'')")
    case False
    have "posix_dirname p = h" unfolding dn by (rule if_not_P [OF False])
    with False show ?thesis by metis
  next
    case True
    have d: "posix_dirname p = rstrip_sep h" unfolding dn by (rule if_P [OF True])
    show ?thesis
    proof (cases "rstrip_sep h = []")
      case True
      with d show ?thesis by simp
    next
      case False
      then have "dropWhile (\<lambda>c. c = CHR ''/'') (rev h) \<noteq> []"
        by (simp add: rstrip_sep_def)
      then have "hd (dropWhile (\<lambda>c. c = CHR ''/'') (rev h)) \<noteq> CHR ''/''"
        using hd_dropWhile [of "\<lambda>c. c = CHR ''/''" "rev h"] by simp
      with False have "last (rstrip_sep h) \<noteq> CHR ''/''"
        by (simp add: rstrip_sep_def last_rev)
      with d show ?thesis by simp
    qed
  qed
qed

lemma posix_split_quicktime_path:
  "posix_split (quicktime_path p) = (posix_dirname p, quicktime_name p)"
proof -
  let ?d = "posix_dirname p" and ?n = "quicktime_name p"
  have n: "list_all not_sep ?n" by (rule quicktime_name_no_sep)
  have hd: "(?n \<noteq> [] \<and> hd ?n = CHR ''/'') = False"
    using n quicktime_name_nonempty [of p] by (cases ?n) (auto simp: not_sep_def)
  have j: "quicktime_path p
      = (if ?d = [] \<or> last ?d = CHR ''/'' then ?d @ ?n else ?d @ CHR ''/'' # ?n)"
    unfolding quicktime_path_def posix_join_def hd by simp
  consider "?d = []" | "?d \<noteq> []" "?d = replicate (length ?d) (CHR ''/'')"
    | "?d \<noteq> []" "last ?d \<noteq> CHR ''/''"
    using posix_dirname_shape [of p] by blast
  then show ?thesis
  proof cases
    case 1
    with j have "quicktime_path p = ?n" by simp
    with 1 posix_split_name [OF n] show ?thesis by simp
  next
    case 2
    then have "last ?d = CHR ''/''"
      by (metis last_replicate length_0_conv)
    with j have "quicktime_path p = ?d @ ?n" by simp
    with posix_split_slashes [OF n 2(2) 2(1)] show ?thesis by simp
  next
    case 3
    with j have "quicktime_path p = ?d @ CHR ''/'' # ?n" by simp
    with posix_split_dir [OF n 3] show ?thesis by simp
  qed
qed

lemma generate_quicktime_requests:
  "transcode_requests (snd (generate_quicktime en tr src (PStr dst) dn te ai deps))
     = transcode_requests tr @
       [\<lparr>tc_src_path = src, tc_dst_path = PStr dst,
          tc_extension = snd (posix_splitext dst), tc_display_name = dn,
          tc_job_context = ''Create Shotgun Local Movie'',
          tc_preset_path = local_movies_preset_path en, tc_asset_info = ai,
          tc_dependencies = deps, tc_poster_frame = PNone\<rparr>]"
  by (auto simp: generate_quicktime_def Let_def transcode_requests_append
      split: sum.splits prod.splits)

lemma quicktime_name_numbered: "quicktime_name ''/proj/shot010.1001.exr'' = ''shot010.mov''"
  by (simp add: path_defs)

lemma quicktime_path_numbered: "quicktime_path ''/proj/shot010.1001.exr'' = ''/proj/shot010.mov''"
  by (simp add: path_defs)

lemma splitext_movie: "posix_splitext ''/proj/shot010.mov'' = (''/proj/shot010'', ''.mov'')"
  by (simp add: path_defs)

lemma re_search_numbered: "re_search ''/proj/shot010.1001.exr'' = None"
  by (simp add: match_here_def is_digit_def)

text \<open>
  C8. The specification words the deliverable name as the basename with its extension
  stripped. For the path \<^verbatim>\<open>/proj/shot010.1001.exr\<close> that is
  \<^verbatim>\<open>shot010.1001.mov\<close>; the hook passes \<^verbatim>\<open>shot010.mov\<close> to the transcoder,
  because it cuts the basename at its first dot.
\<close>

theorem quicktime_name_counterexample:
  "map tc_display_name (transcode_requests (snd (snd
       (publish studio_env [] (shot_item [(''path'', PStr ''/proj/shot010.1001.exr'')])))))
     = [PStr ''shot010.mov'']
   \<and> spec_quicktime_name ''/proj/shot010.1001.exr'' = ''shot010.1001.mov''"
proof -
  have "spec_quicktime_name ''/proj/shot010.1001.exr'' = ''shot010.1001.mov''"
    by (simp add: spec_quicktime_name_def path_defs)
  moreover have "map tc_display_name (transcode_requests (snd (snd
       (publish studio_env [] (shot_item [(''path'', PStr ''/proj/shot010.1001.exr'')])))))
     = [PStr ''shot010.mov'']"
    by (simp add: publish_def builder_defs generate_quicktime_def env_defs Let_def
        quicktime_name_numbered quicktime_path_numbered splitext_movie
        match_here_def is_digit_def)
  ultimately show ?thesis by simp
qed

text \<open>
  C8, as the hook has it. When the item's \<^verbatim>\<open>path\<close> is a string and the Version was
  created, \<^verbatim>\<open>publish\<close> makes one transcode request. Its display name is the
  basename of \<^verbatim>\<open>path\<close> up to its first dot, followed by \<^verbatim>\<open>.mov\<close>; its
  destination is the directory of \<^verbatim>\<open>path\<close> joined with that name, and splits back
  into the two; its source is the \<^verbatim>\<open>file_path\<close> property, or \<^verbatim>\<open>path\<close> when
  there is none.
\<close>

theorem publish_transcode_request:
  assumes "map_of (properties it) ''path'' = Some (PStr p)"
    and "build_ver_data en it = Inr vd"
    and "sg_create en tr ''Version'' vd = Inr version"
  shows "transcode_requests (snd (snd (publish en tr it)))
     = transcode_requests tr @
       [\<lparr>tc_src_path = (case map_of (properties it) ''file_path'' of
                           None \<Rightarrow> PStr p | Some fp \<Rightarrow> fp),
          tc_dst_path = PStr (quicktime_path p),
          tc_extension = snd (posix_splitext (quicktime_path p)),
          tc_display_name = PStr (quicktime_name p),
          tc_job_context = ''Create Shotgun Local Movie'',
          tc_preset_path = local_movies_preset_path en,
          tc_asset_info = dict_get (properties it) ''assetInfo'' (PDict []),
          tc_dependencies = dict_get (properties it) ''backgroundJobId'' PNone,
          tc_poster_frame = PNone\<rparr>]
   \<and> quicktime_name p = takeWhile (\<lambda>c. c \<noteq> CHR ''.'') (snd (posix_split p)) @ ''.mov''
   \<and> quicktime_path p = posix_join (posix_dirname p) (quicktime_name p)
   \<and> posix_split (quicktime_path p) = (posix_dirname p, quicktime_name p)"
proof -
  define tr1 where "tr1 = tr @ [SgCreate ''Version'' vd (Inr version)]"
  define it1 where "it1 = it\<lparr>properties := dict_set (properties it) ''Version'' version\<rparr>"
  define g where "g = generate_quicktime en tr1 (file_path_of (properties it))
      (PStr (quicktime_path p)) (PStr (quicktime_name p)) (PList [version])
      (dict_get (properties it) ''assetInfo'' (PDict []))
      (dict_get (properties it1) ''backgroundJobId'' PNone)"
  from assms have "snd (snd (publish en tr it)) = snd g"
    by (auto simp: publish_def Let_def dict_get_def tr1_def it1_def g_def
        split: sum.splits prod.splits)
  moreover have "transcode_requests tr1 = transcode_requests tr"
    by (simp add: tr1_def transcode_requests_append)
  moreover have "dict_get (properties it1) ''backgroundJobId'' PNone
      = dict_get (properties it) ''backgroundJobId'' PNone"
    by (simp add: it1_def dict_get_def map_of_dict_set)
  moreover from assms(1) have "file_path_of (properties it)
      = (case map_of (properties it) ''file_path'' of None \<Rightarrow> PStr p | Some fp \<Rightarrow> fp)"
    by (simp add: file_path_of_def dict_get_def)
  ultimately have a: "transcode_requests (snd (snd (publish en tr it)))
     = transcode_requests tr @
       [\<lparr>tc_src_path = (case map_of (properties it) ''file_path'' of
                           None \<Rightarrow> PStr p | Some fp \<Rightarrow> fp),
          tc_dst_path = PStr (quicktime_path p),
          tc_extension = snd (posix_splitext (quicktime_path p)),
          tc_display_name = PStr (quicktime_name p),
          tc_job_context = ''Create Shotgun Local Movie'',
          tc_preset_path = local_movies_preset_path en,
          tc_asset_info = dict_get (properties it) ''assetInfo'' (PDict []),
          tc_dependencies = dict_get (properties it) ''backgroundJobId'' PNone,
          tc_poster_frame = PNone\<rparr>]"
    by (simp add: g_def generate_quicktime_requests)
  have b: "quicktime_name p = takeWhile (\<lambda>c. c \<noteq> CHR ''.'') (snd (posix_split p)) @ ''.mov''"
  proof -
    have "not_dot = (\<lambda>c. c \<noteq> CHR ''.'')" by (rule ext) (simp add: not_dot_def)
    then show ?thesis by (simp add: quicktime_name_def split_dot_first_def)
  qed
  have c: "quicktime_path p = posix_join (posix_dirname p) (quicktime_name p)"
    by (simp add: quicktime_path_def)
  show ?thesis by (rule conjI [OF a conjI [OF b conjI [OF c posix_split_quicktime_path]]])
qed

text \<open>A numbered frame without \<^verbatim>\<open>file_path\<close>, and a sequence with one.\<close>

theorem publish_transcode_request_witness:
  "map tc_display_name (transcode_requests (snd (snd
       (publish studio_env [] (shot_item [(''path'', PStr ''/proj/shot010.1001.exr'')])))))
     = [PStr ''shot010.mov'']
   \<and> map tc_dst_path (transcode_requests (snd (snd
       (publish studio_env [] (shot_item [(''path'', PStr ''/proj/shot010.1001.exr'')])))))
     = [PStr ''/proj/shot010.mov'']
   \<and> map tc_src_path (transcode_requests (snd (snd
       (publish studio_env [] (shot_item [(''path'', PStr ''/proj/shot010.1001.exr'')])))))
     = [PStr ''/proj/shot010.1001.exr'']
   \<and> map tc_src_path (transcode_requests (snd (snd
       (publish studio_env [] (shot_item (sequence_props []))))))
     = [PStr ''/proj/shot010.[1001-1050].exr'']"
proof -
  let ?a = "shot_item [(''path'', PStr ''/proj/shot010.1001.exr'')]"
  let ?b = "shot_item (sequence_props [])"
  have pa: "map_of (properties ?a) ''path'' = Some (PStr ''/proj/shot010.1001.exr'')"
    by (simp add: shot_item_def)
  have pb: "map_of (properties ?b) ''path'' = Some (PStr ''/proj/shot010.%04d.exr'')"
    by (simp add: shot_item_def sequence_props_def)
  obtain va where a: "build_ver_data studio_env ?a = Inr va"
    by (simp add: builder_defs re_search_numbered del: re_search.simps)
  obtain vb where b: "build_ver_data studio_env ?b = Inr vb"
    by (simp add: builder_defs re_search_sequence del: re_search.simps)
  have ca: "sg_create studio_env [] ''Version'' va
      = Inr (PDict [(''type'', PStr ''Version''), (''id'', PInt 1)])"
    by (simp add: studio_env_def)
  have cb: "sg_create studio_env [] ''Version'' vb
      = Inr (PDict [(''type'', PStr ''Version''), (''id'', PInt 1)])"
    by (simp add: studio_env_def)
  note ta = conjunct1 [OF publish_transcode_request [OF pa a ca]]
  note tb = conjunct1 [OF publish_transcode_request [OF pb b cb]]
  show ?thesis unfolding ta tb
    by (simp add: quicktime_name_numbered quicktime_path_numbered shot_item_def
        sequence_props_def)
qed

section \<open>An item without a path\<close>

text \<open>
  C10. The claim is that every item with neither \<^verbatim>\<open>path\<close> nor \<^verbatim>\<open>file_path\<close>
  makes \<^verbatim>\<open>publish\<close> raise a type error at the frame-range step. The statements
  before that step can raise first, and then the exception is theirs: an
  \<^verbatim>\<open>assetInfo\<close> that is \<^verbatim>\<open>None\<close> gives an \<^verbatim>\<open>AttributeError\<close> at line 161,
  and \<^verbatim>\<open>assetInfo = {fps: "abc"}\<close> gives the \<^verbatim>\<open>ValueError\<close> of
  \<^verbatim>\<open>float("abc")\<close> at line 163. In both cases no call was made.
\<close>

theorem publish_without_path_counterexample:
  "publish studio_env [] (shot_item [(''assetInfo'', PNone)])
     = (Inl AttributeError, shot_item [(''assetInfo'', PNone)], [])
   \<and> publish studio_env [] (shot_item [(''assetInfo'', PDict [(''fps'', PStr ''abc'')])])
     = (Inl ValueError, shot_item [(''assetInfo'', PDict [(''fps'', PStr ''abc'')])], [])"
  by (simp add: publish_def builder_defs studio_env_def)

text \<open>
  C10, as the hook has it. When the property bag has neither \<^verbatim>\<open>path\<close> nor
  \<^verbatim>\<open>file_path\<close>, \<^verbatim>\<open>publish\<close> raises before it calls any service: the item and
  the list of calls are unchanged. The frame-range step raises a \<^verbatim>\<open>TypeError\<close> on
  such an item, and that is the exception of \<^verbatim>\<open>publish\<close> whenever reading
  \<^verbatim>\<open>assetInfo\<close>, the frame-rate step and the aspect-ratio step before it do not raise
  first, in particular when the item has no \<^verbatim>\<open>assetInfo\<close>.
\<close>

theorem publish_without_path:
  assumes "map_of (properties it) ''path'' = None"
    and "map_of (properties it) ''file_path'' = None"
  shows "(\<exists>e. publish en tr it = (Inl e, it, tr))
       \<and> set_frame_range (file_path_of (properties it)) vd0 = Inl TypeError
       \<and> (asset_info_of (properties it) = Inr ai
            \<and> set_frame_rate en ai (initial_ver_data it) = Inr vd1
            \<and> set_aspect_ratio en ai vd1 = Inr vd2
          \<longrightarrow> publish en tr it = (Inl TypeError, it, tr))
       \<and> (map_of (properties it) ''assetInfo'' = None
          \<longrightarrow> publish en tr it = (Inl TypeError, it, tr))"
proof -
  from assms have fp: "file_path_of (properties it) = PNone"
    by (simp add: file_path_of_def dict_get_def)
  then have r: "set_frame_range (file_path_of (properties it)) v = Inl TypeError" for v
    by (simp add: set_frame_range_def)
  have "\<exists>e. build_ver_data en it = Inl e"
    by (auto simp: build_ver_data_def r split: sum.splits)
  then have a: "\<exists>e. publish en tr it = (Inl e, it, tr)"
    by (auto simp: publish_def Let_def)
  have c: "publish en tr it = (Inl TypeError, it, tr)"
    if "asset_info_of (properties it) = Inr ai"
      "set_frame_rate en ai (initial_ver_data it) = Inr vd1"
      "set_aspect_ratio en ai vd1 = Inr vd2"
    using that by (simp add: publish_def build_ver_data_def r Let_def)
  have d: "publish en tr it = (Inl TypeError, it, tr)"
    if "map_of (properties it) ''assetInfo'' = None"
    using that
    by (simp add: publish_def build_ver_data_def r Let_def asset_info_of_def dict_get_def
        set_frame_rate_def set_aspect_ratio_def)
  from c have c': "asset_info_of (properties it) = Inr ai
            \<and> set_frame_rate en ai (initial_ver_data it) = Inr vd1
            \<and> set_aspect_ratio en ai vd1 = Inr vd2
          \<longrightarrow> publish en tr it = (Inl TypeError, it, tr)"
    by blast
  from d have d': "map_of (properties it) ''assetInfo'' = None
          \<longrightarrow> publish en tr it = (Inl TypeError, it, tr)"
    by blast
  show ?thesis by (rule conjI [OF a conjI [OF r conjI [OF c' d']]])
qed

theorem publish_without_path_witness:
  "map_of (properties (shot_item [])) ''path'' = None
   \<and> map_of (properties (shot_item [])) ''file_path'' = None
   \<and> publish studio_env [] (shot_item []) = (Inl TypeError, shot_item [], [])
   \<and> record_creations (snd (snd (publish studio_env [] (shot_item [])))) = []
   \<and> job_submissions (snd (snd (publish studio_env [] (shot_item [])))) = []"
proof -
  have a: "map_of (properties (shot_item [])) ''path'' = None"
    and b: "map_of (properties (shot_item [])) ''file_path'' = None"
    and c: "map_of (properties (shot_item [])) ''assetInfo'' = None"
    by (simp_all add: shot_item_def)
  from publish_without_path [OF a b, of studio_env "[]"] c
  have "publish studio_env [] (shot_item []) = (Inl TypeError, shot_item [], [])"
    by blast
  with a b show ?thesis
    by (simp add: record_creations_def job_submissions_def)
qed

end
